theory Spec2Isabelle
  imports Main
begin

section \<open>Object identity and ObjMetadataSet\<close>

text \<open>
  The \<open>object\<close> package is used by every file under verification but is not part of the
  sources at hand. Its identity type and set algebra are modelled here from the
  specification's data model (section 3: "ObjectID", "ObjectIDSet").
\<close>

datatype GroupKind = MkGroupKind (Group: string) (Kind: string)

text \<open>
  Modelled from the spec: \<open>object.ObjMetadata\<close>, the identity of a resource:
  (group, kind, namespace, name); two ids are equal iff all four fields match.
\<close>

datatype ObjMetadata =
  ObjMetadata (Namespace: string) (Name: string) (GroupKind: GroupKind)

text \<open>
  Modelled from the spec: \<open>object.ObjMetadataSet\<close>, a Go slice of ids used as an unordered
  set. The list order stands for one admissible iteration order; every statement below
  reads the lists through \<open>set\<close>.
\<close>

type_synonym ObjMetadataSet = "ObjMetadata list"

definition Union_oms :: "ObjMetadataSet \<Rightarrow> ObjMetadataSet \<Rightarrow> ObjMetadataSet" where
  \<comment> \<open>Modelled from the spec: \<open>ObjMetadataSet.Union\<close>.\<close>
  "Union_oms a b = remdups (a @ b)"

definition Diff_oms :: "ObjMetadataSet \<Rightarrow> ObjMetadataSet \<Rightarrow> ObjMetadataSet" where
  \<comment> \<open>Modelled from the spec: \<open>ObjMetadataSet.Diff\<close>, A \ B.\<close>
  "Diff_oms a b = remdups (filter (\<lambda>x. x \<notin> set b) a)"

definition Intersection_oms :: "ObjMetadataSet \<Rightarrow> ObjMetadataSet \<Rightarrow> ObjMetadataSet" where
  \<comment> \<open>Modelled from the spec: \<open>ObjMetadataSet.Intersection\<close>.\<close>
  "Intersection_oms a b = remdups (filter (\<lambda>x. x \<in> set b) a)"

definition Equal_oms :: "ObjMetadataSet \<Rightarrow> ObjMetadataSet \<Rightarrow> bool" where
  \<comment> \<open>Modelled from the spec: \<open>ObjMetadataSet.Equal\<close>, set equality ignoring order.\<close>
  "Equal_oms a b = (set a = set b)"

lemma set_Union_oms: "set (Union_oms a b) = set a \<union> set b"
  by (simp add: Union_oms_def)

lemma set_Diff_oms: "set (Diff_oms a b) = set a - set b"
  by (auto simp: Diff_oms_def)

lemma set_Intersection_oms: "set (Intersection_oms a b) = set a \<inter> set b"
  by (auto simp: Intersection_oms_def)

section \<open>Errors and unstructured objects\<close>

text \<open>
  Go \<open>error\<close> values. \<open>apierrors.IsNotFound\<close> and \<open>meta.IsNoMatchError\<close> recognise the
  first two; every other error carries its message. A panic is a result of its own kind,
  \<open>Panic\<close>: a function that panics returns it in place of its error.
\<close>

datatype error = NotFoundError | NoMatchError | AlreadyExistsError | Errorf string | Panic string

definition IsNotFound :: "error \<Rightarrow> bool" where
  "IsNotFound e = (e = NotFoundError)"

definition IsNoMatchError :: "error \<Rightarrow> bool" where
  "IsNoMatchError e = (e = NoMatchError)"

text \<open>
  A Go \<open>map[string]string\<close> is an association list with distinct keys; list order stands
  for one iteration order of the map.
\<close>

type_synonym strmap = "(string \<times> string) list"

fun map_put :: "string \<Rightarrow> string \<Rightarrow> strmap \<Rightarrow> strmap" where
  "map_put k v [] = [(k, v)]"
| "map_put k v ((k', v') # m) = (if k = k' then (k, v) # m else (k', v') # map_put k v m)"

definition map_delete :: "string \<Rightarrow> strmap \<Rightarrow> strmap" where
  "map_delete k m = filter (\<lambda>kv. fst kv \<noteq> k) m"

text \<open>
  The result of \<open>unstructured.NestedStringMap(obj, "data")\<close>: the field is absent, is a
  map of strings, or has another shape (the accessor's error).
\<close>

datatype DataField = DataAbsent | DataStrings strmap | DataMalformed

text \<open>
  The \<open>status\<close> field as \<open>NestedInt64(obj, "status", "observedGeneration")\<close> and
  \<open>SetNestedField(obj, v, "status", "observedGeneration")\<close> see it.
\<close>

datatype ObsGenField = ObsAbsent | ObsNotInt | ObsInt int

datatype StatusField = StatusAbsent | StatusNotMap | StatusMap ObsGenField

text \<open>
  \<open>unstructured.Unstructured\<close>: the metadata envelope the code reads and writes, and the
  two payload fields it touches. \<open>GetAnnotations\<close> is \<open>None\<close> for Go's nil map.
\<close>

record Unstructured =
  GetGroupKind :: GroupKind
  GetNamespace :: string
  GetName :: string
  GetLabels :: strmap
  GetAnnotations :: "strmap option"
  GetResourceVersion :: string
  GetGeneration :: int
  dataField :: DataField
  statusField :: StatusField

definition UnstructuredToObjMetaOrDie :: "Unstructured \<Rightarrow> ObjMetadata" where
  \<comment> \<open>Modelled from the spec: \<open>object.UnstructuredToObjMetaOrDie\<close>, the id of an object
      (section 3: group, kind, namespace and name), defined for every object.\<close>
  "UnstructuredToObjMetaOrDie obj =
     ObjMetadata (GetNamespace obj) (GetName obj) (GetGroupKind obj)"

definition UnstructuredsToObjMetasOrDie :: "Unstructured list \<Rightarrow> ObjMetadataSet" where
  "UnstructuredsToObjMetasOrDie objs = map UnstructuredToObjMetaOrDie objs"

section \<open>Events and the task context\<close>

text \<open>
  Modelled from the spec: the event factory of the prune package
  (\<open>CreateEventFactory(opts.Destroy, taskName)\<close>) is not among the sources. An event it
  builds is kept as the factory call that built it: the factory (prune or delete events
  of a task group) and the arguments of \<open>CreateFailedEvent\<close>, \<open>CreateSkippedEvent\<close> or
  \<open>CreateSuccessEvent\<close>.
\<close>

datatype EventFactory = PruneEventFactory string | DeleteEventFactory string

definition CreateEventFactory :: "bool \<Rightarrow> string \<Rightarrow> EventFactory" where
  "CreateEventFactory isDelete groupName =
     (if isDelete then DeleteEventFactory groupName else PruneEventFactory groupName)"

datatype FactoryEvent =
    CreateFailedEvent EventFactory ObjMetadata error
  | CreateSkippedEvent EventFactory Unstructured string
  | CreateSuccessEvent EventFactory Unstructured

text \<open>
  Modelled from the spec: \<open>taskrunner.TaskContext\<close> (section 3, "Run outcome tables", and
  section 4.3): the six outcome accumulators, the abandoned set and the event channel.
  Each accumulator is the list of ids in the order they were recorded, read as a set. A
  successful apply is recorded by its id; the uid and the generation that
  \<open>AddSuccessfulApply\<close> also takes are left out.
\<close>

record TaskContext =
  successfulApplies :: ObjMetadataSet
  failedApplies :: ObjMetadataSet
  skippedApplies :: ObjMetadataSet
  failedDeletes :: ObjMetadataSet
  skippedDeletes :: ObjMetadataSet
  abandonedObjects :: ObjMetadataSet
  eventChannel :: "FactoryEvent list"

definition NewTaskContext :: TaskContext where
  "NewTaskContext = \<lparr>successfulApplies = [], failedApplies = [], skippedApplies = [],
     failedDeletes = [], skippedDeletes = [], abandonedObjects = [], eventChannel = []\<rparr>"

definition AddSuccessfulApply :: "ObjMetadata \<Rightarrow> TaskContext \<Rightarrow> TaskContext" where
  "AddSuccessfulApply id' tc = tc\<lparr>successfulApplies := successfulApplies tc @ [id']\<rparr>"

definition AddFailedApply :: "ObjMetadata \<Rightarrow> TaskContext \<Rightarrow> TaskContext" where
  "AddFailedApply id' tc = tc\<lparr>failedApplies := failedApplies tc @ [id']\<rparr>"

definition AddSkippedApply :: "ObjMetadata \<Rightarrow> TaskContext \<Rightarrow> TaskContext" where
  "AddSkippedApply id' tc = tc\<lparr>skippedApplies := skippedApplies tc @ [id']\<rparr>"

definition AddFailedDelete :: "ObjMetadata \<Rightarrow> TaskContext \<Rightarrow> TaskContext" where
  "AddFailedDelete id' tc = tc\<lparr>failedDeletes := failedDeletes tc @ [id']\<rparr>"

definition AddSkippedDelete :: "ObjMetadata \<Rightarrow> TaskContext \<Rightarrow> TaskContext" where
  "AddSkippedDelete id' tc = tc\<lparr>skippedDeletes := skippedDeletes tc @ [id']\<rparr>"

definition AddAbandonedObject :: "ObjMetadata \<Rightarrow> TaskContext \<Rightarrow> TaskContext" where
  "AddAbandonedObject id' tc = tc\<lparr>abandonedObjects := abandonedObjects tc @ [id']\<rparr>"

definition SendEvent :: "FactoryEvent \<Rightarrow> TaskContext \<Rightarrow> TaskContext" where
  "SendEvent e tc = tc\<lparr>eventChannel := eventChannel tc @ [e]\<rparr>"

section \<open>Inventory records and the fake client\<close>

text \<open>
  Modelled from the spec: \<open>actuation.ObjectStatus\<close> (section 3, "Statuses"): for one
  object reference, the strategy and the actuation and reconcile states.
\<close>

datatype ActuationStrategy = ActuationStrategyApply | ActuationStrategyDelete

datatype ActuationStatus =
  ActuationPending | ActuationSucceeded | ActuationSkipped | ActuationFailed

datatype ReconcileStatus =
  ReconcilePending | ReconcileSucceeded | ReconcileSkipped | ReconcileFailed | ReconcileTimeout

record ObjectStatus =
  ObjectReference :: ObjMetadata
  Strategy :: ActuationStrategy
  Actuation :: ActuationStatus
  Reconcile :: ReconcileStatus

text \<open>\<open>BaseInventory\<close> (inventory-client.go) and the two records that embed it.\<close>

record BaseInventory =
  Objs :: ObjMetadataSet
  ObjStatuses :: "ObjectStatus list"

record FakeInventory = BaseInventory +
  InventoryID :: string

record UnstructuredInventory = BaseInventory +
  ClusterObj :: "Unstructured option"

definition SetObjects :: "ObjMetadataSet \<Rightarrow> ('a BaseInventory_scheme) \<Rightarrow> ('a BaseInventory_scheme)" where
  "SetObjects objs bi = bi\<lparr>Objs := objs\<rparr>"

definition Objects :: "('a BaseInventory_scheme) \<Rightarrow> ObjMetadataSet" where
  "Objects bi = Objs bi"

definition ObjectStatuses :: "('a BaseInventory_scheme) \<Rightarrow> ObjectStatus list" where
  "ObjectStatuses bi = ObjStatuses bi"

record UpdateOptions =
  UpdateStatus :: bool

text \<open>
  \<open>FakeClient\<close>: the testing implementation of the inventory client. Its \<open>Inv\<close> field holds
  an \<open>Inventory\<close>; here it is the \<open>FakeInventory\<close> that \<open>NewFakeClient\<close> stores.
\<close>

record FakeClient =
  Inv :: FakeInventory
  Err :: "error option"

definition NewFakeClient :: "ObjMetadataSet \<Rightarrow> FakeClient" where
  "NewFakeClient objs =
     \<lparr>Inv = \<lparr>Objs = objs, ObjStatuses = [], InventoryID = ''fake-inventory''\<rparr>, Err = None\<rparr>"

definition FakeClient_Get :: "FakeClient \<Rightarrow> error + FakeInventory" where
  "FakeClient_Get fic = (case Err fic of Some e \<Rightarrow> Inl e | None \<Rightarrow> Inr (Inv fic))"

definition FakeClient_Update ::
  "FakeClient \<Rightarrow> FakeInventory \<Rightarrow> UpdateOptions \<Rightarrow> error option \<times> FakeClient" where
  "FakeClient_Update fic fi opts =
     (case Err fic of Some e \<Rightarrow> (Some e, fic) | None \<Rightarrow> (None, fic\<lparr>Inv := fi\<rparr>))"

section \<open>The inventory-set task\<close>

record InvSetTask =
  TaskName :: string
  PrevInventory :: ObjMetadataSet

text \<open>
  Modelled from the spec: the computation of \<open>InvSetTask.Start\<close> (inv_set_task.go is not
  among the sources; its test is). Section 4.4 gives the formula. Its two delete terms are
  read against the previous inventory, as the apply terms are: invariant 1 of section 8
  (the new inventory lies within the previous inventory and the successful applies)
  requires it of both, and the scenario of section 8
  "prev={}, applied={}, failedDeletes={A} -> {}" and the case "no apply objs, one prune
  failure, not in prev inventory; no inventory" of \<open>TestInvSetTask\<close> require it of the failed
  deletes.
\<close>

definition InvSetTask_newInventory :: "InvSetTask \<Rightarrow> TaskContext \<Rightarrow> ObjMetadataSet" where
  "InvSetTask_newInventory i taskContext =
     (let invObjIds = [];
          invObjIds = Union_oms invObjIds (successfulApplies taskContext);
          invObjIds = Union_oms invObjIds
                        (Intersection_oms (PrevInventory i) (failedApplies taskContext));
          invObjIds = Union_oms invObjIds
                        (Intersection_oms (PrevInventory i) (skippedApplies taskContext));
          invObjIds = Union_oms invObjIds
                        (Intersection_oms (PrevInventory i) (failedDeletes taskContext));
          invObjIds = Union_oms invObjIds
                        (Intersection_oms (PrevInventory i) (skippedDeletes taskContext));
          invObjIds = Diff_oms invObjIds (abandonedObjects taskContext)
      in invObjIds)"

text \<open>
  Modelled from the spec: \<open>InvSetTask.Start\<close> writes the set through the inventory client's
  \<open>Update\<close> with \<open>UpdateStatus = true\<close>; the task result carries the client's error.
\<close>

definition InvSetTask_Start ::
  "InvSetTask \<Rightarrow> TaskContext \<Rightarrow> FakeClient \<Rightarrow> error option \<times> FakeClient" where
  "InvSetTask_Start i taskContext client =
     FakeClient_Update client
       (SetObjects (InvSetTask_newInventory i taskContext) (Inv client))
       \<lparr>UpdateStatus = True\<rparr>"

text \<open>The table of \<open>TestInvSetTask\<close> and the body of its loop.\<close>

record InvSetTestCase =
  tc_prevInventory :: ObjMetadataSet
  tc_appliedObjs :: ObjMetadataSet
  tc_failedApplies :: ObjMetadataSet
  tc_failedDeletes :: ObjMetadataSet
  tc_skippedApplies :: ObjMetadataSet
  tc_skippedDeletes :: ObjMetadataSet
  tc_abandonedObjs :: ObjMetadataSet
  tc_expectedObjs :: ObjMetadataSet

definition InvSetCase ::
  "ObjMetadataSet \<Rightarrow> ObjMetadataSet \<Rightarrow> ObjMetadataSet \<Rightarrow> ObjMetadataSet \<Rightarrow> ObjMetadataSet \<Rightarrow>
   ObjMetadataSet \<Rightarrow> ObjMetadataSet \<Rightarrow> ObjMetadataSet \<Rightarrow> InvSetTestCase" where
  "InvSetCase prev applied failedA failedD skippedA skippedD abandoned expected =
     \<lparr>tc_prevInventory = prev, tc_appliedObjs = applied, tc_failedApplies = failedA,
      tc_failedDeletes = failedD, tc_skippedApplies = skippedA, tc_skippedDeletes = skippedD,
      tc_abandonedObjs = abandoned, tc_expectedObjs = expected\<rparr>"

definition TestInvSetTask_tests ::
  "ObjMetadata \<Rightarrow> ObjMetadata \<Rightarrow> ObjMetadata \<Rightarrow> InvSetTestCase list" where
  "TestInvSetTask_tests id1 id2 id3 =
    [InvSetCase [] [] [] [] [] [] [] [],
     InvSetCase [] [id1] [] [] [] [] [] [id1],
     InvSetCase [id1] [] [] [id1] [] [] [] [id1],
     InvSetCase [] [] [] [id1] [] [] [] [],
     InvSetCase [] [id3] [] [id3] [] [] [] [id3],
     InvSetCase [id2, id3] [id1, id2] [] [id2, id3] [] [] [] [id1, id2, id3],
     InvSetCase [] [] [id3] [] [] [] [] [],
     InvSetCase [] [] [id3] [] [] [] [] [],
     InvSetCase [] [id2] [id3] [] [] [] [] [id2],
     InvSetCase [id3] [id2] [id3] [] [] [] [] [id2, id3],
     InvSetCase [id3] [id2] [id1, id3] [] [] [] [] [id2, id3],
     InvSetCase [id2, id3] [] [id1, id2, id3] [] [] [] [] [id2, id3],
     InvSetCase [id2, id3, id1] [] [id1, id2, id3] [] [] [] [] [id2, id1, id3],
     InvSetCase [id1] [] [] [] [id1] [] [] [id1],
     InvSetCase [] [] [] [] [id1] [] [] [],
     InvSetCase [id1, id2] [id2] [] [] [id1] [] [] [id1, id2],
     InvSetCase [id1] [] [] [] [] [id1] [] [id1],
     InvSetCase [id1, id2] [id2] [] [] [] [id1] [] [id1, id2],
     InvSetCase [id1, id2, id3] [id1, id2] [] [] [] [] [id3] [id1, id2],
     InvSetCase [id2, id3] [] [] [] [] [] [id2, id3] [],
     InvSetCase [id3] [] [] [] [] [id3] [id3] []]"

definition TestInvSetTask_context :: "InvSetTestCase \<Rightarrow> TaskContext" where
  "TestInvSetTask_context tc =
     (let context = NewTaskContext;
          context = foldl (\<lambda>c applyObj. AddSuccessfulApply applyObj c) context (tc_appliedObjs tc);
          context = foldl (\<lambda>c applyFailure. AddFailedApply applyFailure c) context (tc_failedApplies tc);
          context = foldl (\<lambda>c pruneObj. AddFailedDelete pruneObj c) context (tc_failedDeletes tc);
          context = foldl (\<lambda>c skippedApply. AddSkippedApply skippedApply c) context (tc_skippedApplies tc);
          context = foldl (\<lambda>c skippedDelete. AddSkippedDelete skippedDelete c) context (tc_skippedDeletes tc);
          context = foldl (\<lambda>c abandonedObj. AddAbandonedObject abandonedObj c) context (tc_abandonedObjs tc)
      in context)"

definition TestInvSetTask_run :: "InvSetTestCase \<Rightarrow> error option \<times> ObjMetadataSet" where
  "TestInvSetTask_run tc =
     (let client = NewFakeClient [];
          task = \<lparr>TaskName = ''test-inv-set-task'', PrevInventory = tc_prevInventory tc\<rparr>;
          (result_err, client') = InvSetTask_Start task (TestInvSetTask_context tc) client
      in (result_err, Objs (Inv client')))"

definition TestInvSetTask_passes :: "InvSetTestCase \<Rightarrow> bool" where
  "TestInvSetTask_passes tc =
     (case TestInvSetTask_run tc of
        (Some e, actual) \<Rightarrow> False
      | (None, actual) \<Rightarrow> Equal_oms (tc_expectedObjs tc) actual)"

text \<open>
  The formula of section 4.4 as the specification writes it, on sets, with the deletes
  unconditional.
\<close>

definition spec_newInventory ::
  "ObjMetadata set \<Rightarrow> ObjMetadata set \<Rightarrow> ObjMetadata set \<Rightarrow> ObjMetadata set \<Rightarrow>
   ObjMetadata set \<Rightarrow> ObjMetadata set \<Rightarrow> ObjMetadata set \<Rightarrow> ObjMetadata set" where
  "spec_newInventory prevInventory appliedOK appliedFailed appliedSkipped failedDel skippedDel
      abandoned =
     (appliedOK \<union> (appliedFailed \<inter> prevInventory) \<union> (appliedSkipped \<inter> prevInventory)
        \<union> failedDel \<union> skippedDel) - abandoned"

definition InvSetTask_writes :: "InvSetTestCase \<Rightarrow> ObjMetadata set option" where
  \<comment> \<open>What a run of the test's loop body leaves in the inventory store, as a set;
      \<open>None\<close> when the task reports an error.\<close>
  "InvSetTask_writes tc =
     (case TestInvSetTask_run tc of
        (Some e, actual) \<Rightarrow> None
      | (None, actual) \<Rightarrow> Some (set actual))"

text \<open>Three concrete ids for closed instances.\<close>

definition pod_a :: ObjMetadata where
  "pod_a = ObjMetadata ''test-namespace'' ''pod-a'' (MkGroupKind [] ''Pod'')"

definition pod_b :: ObjMetadata where
  "pod_b = ObjMetadata ''test-namespace'' ''pod-b'' (MkGroupKind [] ''Pod'')"

definition pod_c :: ObjMetadata where
  "pod_c = ObjMetadata ''test-namespace'' ''pod-c'' (MkGroupKind [] ''Pod'')"

subsection \<open>Facts about the inventory-set task\<close>

lemma foldl_AddSuccessfulApply:
  "foldl (\<lambda>c x. AddSuccessfulApply x c) c xs = c\<lparr>successfulApplies := successfulApplies c @ xs\<rparr>"
  by (induction xs arbitrary: c) (simp_all add: AddSuccessfulApply_def)

lemma foldl_AddFailedApply:
  "foldl (\<lambda>c x. AddFailedApply x c) c xs = c\<lparr>failedApplies := failedApplies c @ xs\<rparr>"
  by (induction xs arbitrary: c) (simp_all add: AddFailedApply_def)

lemma foldl_AddSkippedApply:
  "foldl (\<lambda>c x. AddSkippedApply x c) c xs = c\<lparr>skippedApplies := skippedApplies c @ xs\<rparr>"
  by (induction xs arbitrary: c) (simp_all add: AddSkippedApply_def)

lemma foldl_AddFailedDelete:
  "foldl (\<lambda>c x. AddFailedDelete x c) c xs = c\<lparr>failedDeletes := failedDeletes c @ xs\<rparr>"
  by (induction xs arbitrary: c) (simp_all add: AddFailedDelete_def)

lemma foldl_AddSkippedDelete:
  "foldl (\<lambda>c x. AddSkippedDelete x c) c xs = c\<lparr>skippedDeletes := skippedDeletes c @ xs\<rparr>"
  by (induction xs arbitrary: c) (simp_all add: AddSkippedDelete_def)

lemma foldl_AddAbandonedObject:
  "foldl (\<lambda>c x. AddAbandonedObject x c) c xs = c\<lparr>abandonedObjects := abandonedObjects c @ xs\<rparr>"
  by (induction xs arbitrary: c) (simp_all add: AddAbandonedObject_def)

lemma TestInvSetTask_context_eq:
  "TestInvSetTask_context tc =
    \<lparr>successfulApplies = tc_appliedObjs tc, failedApplies = tc_failedApplies tc,
     skippedApplies = tc_skippedApplies tc, failedDeletes = tc_failedDeletes tc,
     skippedDeletes = tc_skippedDeletes tc, abandonedObjects = tc_abandonedObjs tc,
     eventChannel = []\<rparr>"
  by (simp add: TestInvSetTask_context_def NewTaskContext_def foldl_AddSuccessfulApply
      foldl_AddFailedApply foldl_AddSkippedApply foldl_AddFailedDelete foldl_AddSkippedDelete
      foldl_AddAbandonedObject)

lemma set_newInventory:
  "set (InvSetTask_newInventory i tc) =
     (set (successfulApplies tc)
       \<union> (set (failedApplies tc) \<inter> set (PrevInventory i))
       \<union> (set (skippedApplies tc) \<inter> set (PrevInventory i))
       \<union> (set (failedDeletes tc) \<inter> set (PrevInventory i))
       \<union> (set (skippedDeletes tc) \<inter> set (PrevInventory i))) - set (abandonedObjects tc)"
  by (auto simp: InvSetTask_newInventory_def Let_def set_Union_oms set_Diff_oms set_Intersection_oms)

lemma InvSetTask_newInventory_invariants:
  "set (InvSetTask_newInventory i tc) \<subseteq> set (PrevInventory i) \<union> set (successfulApplies tc)"
  "set (abandonedObjects tc) \<inter> set (InvSetTask_newInventory i tc) = {}"
  by (auto simp: set_newInventory)

lemma TestInvSetTask_run_eq:
  "TestInvSetTask_run tc =
     (None, InvSetTask_newInventory
        \<lparr>TaskName = ''test-inv-set-task'', PrevInventory = tc_prevInventory tc\<rparr>
        (TestInvSetTask_context tc))"
  by (simp add: TestInvSetTask_run_def InvSetTask_Start_def FakeClient_Update_def
      NewFakeClient_def SetObjects_def)

lemma TestInvSetTask_passes_iff:
  "TestInvSetTask_passes tc \<longleftrightarrow>
     set (tc_expectedObjs tc) =
       (set (tc_appliedObjs tc)
         \<union> (set (tc_failedApplies tc) \<inter> set (tc_prevInventory tc))
         \<union> (set (tc_skippedApplies tc) \<inter> set (tc_prevInventory tc))
         \<union> (set (tc_failedDeletes tc) \<inter> set (tc_prevInventory tc))
         \<union> (set (tc_skippedDeletes tc) \<inter> set (tc_prevInventory tc)))
       - set (tc_abandonedObjs tc)"
  by (simp add: TestInvSetTask_passes_def TestInvSetTask_run_eq Equal_oms_def set_newInventory
      TestInvSetTask_context_eq)

lemma TestInvSetTask_tests_pass:
  assumes "distinct [id1, id2, id3]"
  shows "list_all TestInvSetTask_passes (TestInvSetTask_tests id1 id2 id3)"
  using assms
  by (simp add: TestInvSetTask_tests_def TestInvSetTask_passes_iff InvSetCase_def) blast

lemma InvSetTask_writes_eq:
  "InvSetTask_writes tc =
     Some ((set (tc_appliedObjs tc)
         \<union> (set (tc_failedApplies tc) \<inter> set (tc_prevInventory tc))
         \<union> (set (tc_skippedApplies tc) \<inter> set (tc_prevInventory tc))
         \<union> (set (tc_failedDeletes tc) \<inter> set (tc_prevInventory tc))
         \<union> (set (tc_skippedDeletes tc) \<inter> set (tc_prevInventory tc)))
       - set (tc_abandonedObjs tc))"
  by (simp add: InvSetTask_writes_def TestInvSetTask_run_eq set_newInventory
      TestInvSetTask_context_eq)

text \<open>
  Claim C1. The inventory-set task writes the new inventory of the specification's
  scenarios: with prev = {} and failedDeletes = {A} it writes {}; with prev = {A} and
  failedDeletes = {A} it writes {A}; with prev = {B,C}, applied = {A,B} and
  failedDeletes = {B,C} it writes {A,B,C}; with prev = {A,B,C}, applied = {A,B} and
  abandoned = {C} it writes {A,B}. A, B and C are three different ids.
\<close>

theorem InvSetTask_scenarios:
  assumes "distinct [A, B, C]"
  shows "InvSetTask_writes (InvSetCase [] [] [] [A] [] [] [] []) = Some {}
       \<and> InvSetTask_writes (InvSetCase [A] [] [] [A] [] [] [] []) = Some {A}
       \<and> InvSetTask_writes (InvSetCase [B, C] [A, B] [] [B, C] [] [] [] []) = Some {A, B, C}
       \<and> InvSetTask_writes (InvSetCase [A, B, C] [A, B] [] [] [] [] [C] []) = Some {A, B}"
proof -
  have s1: "InvSetTask_writes (InvSetCase [] [] [] [A] [] [] [] []) = Some {}"
    by (simp add: InvSetTask_writes_eq InvSetCase_def)
  have s2: "InvSetTask_writes (InvSetCase [A] [] [] [A] [] [] [] []) = Some {A}"
    by (simp add: InvSetTask_writes_eq InvSetCase_def)
  have s3: "InvSetTask_writes (InvSetCase [B, C] [A, B] [] [B, C] [] [] [] []) = Some {A, B, C}"
    by (simp add: InvSetTask_writes_eq InvSetCase_def) blast
  have s4: "InvSetTask_writes (InvSetCase [A, B, C] [A, B] [] [] [] [] [C] []) = Some {A, B}"
    using assms by (simp add: InvSetTask_writes_eq InvSetCase_def) blast
  from s1 s2 s3 s4 show ?thesis by simp
qed

theorem InvSetTask_scenarios_witness:
  "InvSetTask_writes (InvSetCase [] [] [] [pod_a] [] [] [] []) = Some {}
 \<and> InvSetTask_writes (InvSetCase [pod_a] [] [] [pod_a] [] [] [] []) = Some {pod_a}
 \<and> InvSetTask_writes (InvSetCase [pod_b, pod_c] [pod_a, pod_b] [] [pod_b, pod_c] [] [] [] [])
      = Some {pod_a, pod_b, pod_c}
 \<and> InvSetTask_writes (InvSetCase [pod_a, pod_b, pod_c] [pod_a, pod_b] [] [] [] [] [pod_c] [])
      = Some {pod_a, pod_b}"
proof -
  have d: "distinct [pod_a, pod_b, pod_c]"
    by (simp add: pod_a_def pod_b_def pod_c_def)
  show ?thesis
    using InvSetTask_scenarios [OF d] by simp
qed

text \<open>
  Claim C2, as stated, fails: the task keeps neither a failed delete nor a skipped delete
  that was not in the previous inventory, where the formula of section 4.4 keeps both.
\<close>

theorem InvSetTask_deletes_counterexample:
  "InvSetTask_writes (InvSetCase [] [] [] [pod_a] [] [] [] [])
     \<noteq> Some (spec_newInventory {} {} {} {} {pod_a} {} {})
 \<and> InvSetTask_writes (InvSetCase [] [] [] [] [] [pod_a] [] [])
     \<noteq> Some (spec_newInventory {} {} {} {} {} {pod_a} {})"
  by (simp add: InvSetTask_writes_eq InvSetCase_def spec_newInventory_def)

text \<open>
  Claim C2, amended. With a client that has no forced error, the inventory-set task
  writes
  appliedOK \<union> (appliedFailed \<inter> prev) \<union> (appliedSkipped \<inter> prev) \<union> (failedDeletes \<inter> prev)
  \<union> (skippedDeletes \<inter> prev) - abandoned: a failed or skipped delete that is not
  abandoned is in the new inventory if and only if it was in the previous inventory or
  was applied successfully.
\<close>

theorem InvSetTask_Start_newInventory:
  assumes "Err client = None"
  shows "fst (InvSetTask_Start i taskContext client) = None
       \<and> set (Objects (Inv (snd (InvSetTask_Start i taskContext client)))) =
           (set (successfulApplies taskContext)
             \<union> (set (failedApplies taskContext) \<inter> set (PrevInventory i))
             \<union> (set (skippedApplies taskContext) \<inter> set (PrevInventory i))
             \<union> (set (failedDeletes taskContext) \<inter> set (PrevInventory i))
             \<union> (set (skippedDeletes taskContext) \<inter> set (PrevInventory i)))
           - set (abandonedObjects taskContext)"
  using assms
  by (simp add: InvSetTask_Start_def FakeClient_Update_def SetObjects_def Objects_def
      set_newInventory)

theorem InvSetTask_Start_newInventory_witness:
  "fst (InvSetTask_Start \<lparr>TaskName = ''inventory-set-0'', PrevInventory = [pod_a, pod_b]\<rparr>
          (AddSkippedDelete pod_c (AddSkippedDelete pod_a (AddFailedDelete pod_c
             (AddFailedDelete pod_b NewTaskContext))))
          (NewFakeClient [])) = None
 \<and> set (Objects (Inv (snd (InvSetTask_Start
          \<lparr>TaskName = ''inventory-set-0'', PrevInventory = [pod_a, pod_b]\<rparr>
          (AddSkippedDelete pod_c (AddSkippedDelete pod_a (AddFailedDelete pod_c
             (AddFailedDelete pod_b NewTaskContext))))
          (NewFakeClient []))))) = {pod_a, pod_b}"
proof -
  have e: "Err (NewFakeClient []) = None"
    by (simp add: NewFakeClient_def)
  show ?thesis
    using InvSetTask_Start_newInventory [OF e]
    by (simp add: AddSkippedDelete_def AddFailedDelete_def NewTaskContext_def
        pod_a_def pod_b_def pod_c_def)
qed

section \<open>Inventory policy\<close>

text \<open>
  Modelled from the spec: policy.go is not among the sources (its test is). The three
  policies and the owner annotation are those of sections 4.2 and 6; the match status
  and the test's \<open>fakeInventoryInfo\<close> are those of policy_test.go.
\<close>

datatype InventoryPolicy = InventoryPolicyMustMatch | AdoptIfNoInventory | AdoptAll

datatype inventoryIDMatchStatus = Empty | Match | NoMatch

definition OwningInventoryKey :: string where
  "OwningInventoryKey = ''config.k8s.io/owning-inventory''"

record InventoryInfo =
  info_Name :: string
  info_Namespace :: string
  info_ID :: string

definition fakeInventoryInfo :: "string \<Rightarrow> InventoryInfo" where
  "fakeInventoryInfo i = \<lparr>info_Name = [], info_Namespace = [], info_ID = i\<rparr>"

definition InventoryIDMatch :: "InventoryInfo \<Rightarrow> Unstructured \<Rightarrow> inventoryIDMatchStatus" where
  \<comment> \<open>Modelled from the spec: Empty = no owner annotation, Match/NoMatch = the annotation
      compared with the current inventory id. Reading a nil map finds nothing.\<close>
  "InventoryIDMatch invInfo obj =
     (case GetAnnotations obj of
        None \<Rightarrow> Empty
      | Some annotations \<Rightarrow>
          (case map_of annotations OwningInventoryKey of
             None \<Rightarrow> Empty
           | Some v \<Rightarrow> if v = info_ID invInfo then Match else NoMatch))"

definition CanApply :: "InventoryInfo \<Rightarrow> Unstructured option \<Rightarrow> InventoryPolicy \<Rightarrow> bool" where
  \<comment> \<open>Modelled from the spec (section 4.2, InventoryPolicyFilter); the boolean result only.
      A nil object can be applied (case "nil object" of \<open>TestCanApply\<close>).\<close>
  "CanApply invInfo obj policy =
     (case obj of
        None \<Rightarrow> True
      | Some o' \<Rightarrow>
          (case InventoryIDMatch invInfo o' of
             Empty \<Rightarrow> policy \<noteq> InventoryPolicyMustMatch
           | Match \<Rightarrow> True
           | NoMatch \<Rightarrow> policy = AdoptAll))"

definition CanPrune :: "InventoryInfo \<Rightarrow> Unstructured option \<Rightarrow> InventoryPolicy \<Rightarrow> bool" where
  \<comment> \<open>Modelled from the spec (section 4.2, InventoryPolicyFilter). A nil object cannot be
      pruned (case "nil object" of \<open>TestCanPrune\<close>).\<close>
  "CanPrune invInfo obj policy =
     (case obj of
        None \<Rightarrow> False
      | Some o' \<Rightarrow>
          (case InventoryIDMatch invInfo o' of
             Empty \<Rightarrow> policy = AdoptIfNoInventory \<or> policy = AdoptAll
           | Match \<Rightarrow> True
           | NoMatch \<Rightarrow> policy = AdoptAll))"

text \<open>The truth table of section 4.2, entry by entry (the same for apply and prune).\<close>

fun policy_matrix :: "inventoryIDMatchStatus \<Rightarrow> InventoryPolicy \<Rightarrow> bool" where
  "policy_matrix Empty InventoryPolicyMustMatch = False"
| "policy_matrix Empty AdoptIfNoInventory = True"
| "policy_matrix Empty AdoptAll = True"
| "policy_matrix Match InventoryPolicyMustMatch = True"
| "policy_matrix Match AdoptIfNoInventory = True"
| "policy_matrix Match AdoptAll = True"
| "policy_matrix NoMatch InventoryPolicyMustMatch = False"
| "policy_matrix NoMatch AdoptIfNoInventory = False"
| "policy_matrix NoMatch AdoptAll = True"

text \<open>\<open>testObjectWithAnnotation\<close> and the tables of \<open>TestCanApply\<close> and \<open>TestCanPrune\<close>.\<close>

definition testObjectWithAnnotation :: "string \<Rightarrow> string \<Rightarrow> Unstructured" where
  "testObjectWithAnnotation key val =
     \<lparr>GetGroupKind = MkGroupKind [] ''Deployment'', GetNamespace = ''ns'', GetName = ''foo'',
      GetLabels = [], GetAnnotations = (if key \<noteq> [] then Some [(key, val)] else None),
      GetResourceVersion = [], GetGeneration = 0, dataField = DataAbsent,
      statusField = StatusAbsent\<rparr>"

definition policy_testcases ::
  "(Unstructured option \<times> InventoryInfo \<times> InventoryPolicy) list" where
  "policy_testcases =
    [(None, fakeInventoryInfo ''random-id'', InventoryPolicyMustMatch),
     (Some (testObjectWithAnnotation [] []), fakeInventoryInfo ''random-id'', AdoptIfNoInventory),
     (Some (testObjectWithAnnotation [] []), fakeInventoryInfo ''random-id'', AdoptAll),
     (Some (testObjectWithAnnotation [] []), fakeInventoryInfo ''random-id'',
        InventoryPolicyMustMatch),
     (Some (testObjectWithAnnotation OwningInventoryKey ''matched''), fakeInventoryInfo ''matched'',
        InventoryPolicyMustMatch),
     (Some (testObjectWithAnnotation OwningInventoryKey ''matched''), fakeInventoryInfo ''matched'',
        AdoptIfNoInventory),
     (Some (testObjectWithAnnotation OwningInventoryKey ''matched''), fakeInventoryInfo ''matched'',
        AdoptAll),
     (Some (testObjectWithAnnotation OwningInventoryKey ''unmatched''),
        fakeInventoryInfo ''random-id'', InventoryPolicyMustMatch),
     (Some (testObjectWithAnnotation OwningInventoryKey ''unmatched''),
        fakeInventoryInfo ''random-id'', AdoptIfNoInventory),
     (Some (testObjectWithAnnotation OwningInventoryKey ''unmatched''),
        fakeInventoryInfo ''random-id'', AdoptAll)]"

definition TestCanApply_expected :: "bool list" where
  "TestCanApply_expected = [True, True, True, False, True, True, True, False, False, True]"

definition TestCanPrune_expected :: "bool list" where
  "TestCanPrune_expected = [False, True, True, False, True, True, True, False, False, True]"

subsection \<open>Facts about the inventory policy\<close>

lemma TestCanApply_passes:
  "map (\<lambda>(obj, invInfo, policy). CanApply invInfo obj policy) policy_testcases
     = TestCanApply_expected"
  by (simp add: policy_testcases_def TestCanApply_expected_def CanApply_def InventoryIDMatch_def
      testObjectWithAnnotation_def fakeInventoryInfo_def OwningInventoryKey_def)

lemma TestCanPrune_passes:
  "map (\<lambda>(obj, invInfo, policy). CanPrune invInfo obj policy) policy_testcases
     = TestCanPrune_expected"
  by (simp add: policy_testcases_def TestCanPrune_expected_def CanPrune_def InventoryIDMatch_def
      testObjectWithAnnotation_def fakeInventoryInfo_def OwningInventoryKey_def)

lemma TestInventoryIDMatch_passes:
  "InventoryIDMatch (fakeInventoryInfo ''random-id'') (testObjectWithAnnotation [] []) = Empty
 \<and> InventoryIDMatch (fakeInventoryInfo ''matched'')
       (testObjectWithAnnotation OwningInventoryKey ''matched'') = Match
 \<and> InventoryIDMatch (fakeInventoryInfo ''random-id'')
       (testObjectWithAnnotation OwningInventoryKey ''unmatched'') = NoMatch"
  by (simp add: InventoryIDMatch_def testObjectWithAnnotation_def fakeInventoryInfo_def
      OwningInventoryKey_def)

text \<open>
  Claim C3. For every live object, inventory and policy, \<open>CanApply\<close> and \<open>CanPrune\<close> are
  the entry of the policy matrix for the object's match status: with no owner annotation
  MustMatch denies and the two adopting policies permit; with a matching annotation all
  three permit; with a non-matching annotation only AdoptAll permits.
\<close>

theorem CanApply_CanPrune_matrix:
  "CanApply invInfo (Some obj) policy = policy_matrix (InventoryIDMatch invInfo obj) policy
 \<and> CanPrune invInfo (Some obj) policy = policy_matrix (InventoryIDMatch invInfo obj) policy"
  by (cases "InventoryIDMatch invInfo obj"; cases policy) (simp_all add: CanApply_def CanPrune_def)

section \<open>The pruner\<close>

text \<open>
  Modelled from the spec: \<open>common.DryRunStrategy\<close> (section 4.1: dry-run modes client,
  server, none) and \<open>metav1.DeletionPropagation\<close> (section 6).
\<close>

datatype DryRunStrategy = DryRunNone | DryRunClient | DryRunServer

definition ClientOrServerDryRun :: "DryRunStrategy \<Rightarrow> bool" where
  "ClientOrServerDryRun d = (d = DryRunClient \<or> d = DryRunServer)"

datatype DeletionPropagation =
  DeletePropagationOrphan | DeletePropagationBackground | DeletePropagationForeground

record DeleteOptions =
  del_PropagationPolicy :: "DeletionPropagation option"

record Options =
  DryRunStrategy :: DryRunStrategy
  PropagationPolicy :: DeletionPropagation
  Destroy :: bool

text \<open>
  The remote store is a state of type \<open>'c\<close>. \<open>dynamic.ResourceInterface\<close> for one resource
  is the record of its operations on that state; every operation names the namespace it
  is scoped to. Reads leave the state as it is.
\<close>

record 'c ResourceInterface =
  rc_Get :: "'c \<Rightarrow> string \<Rightarrow> string \<Rightarrow> error + Unstructured"
  rc_List :: "'c \<Rightarrow> error + Unstructured list"
  rc_Create :: "'c \<Rightarrow> string \<Rightarrow> Unstructured \<Rightarrow> (error + Unstructured) \<times> 'c"
  rc_Update :: "'c \<Rightarrow> string \<Rightarrow> Unstructured \<Rightarrow> (error + Unstructured) \<times> 'c"
  rc_UpdateStatus :: "'c \<Rightarrow> string \<Rightarrow> Unstructured \<Rightarrow> (error + Unstructured) \<times> 'c"
  rc_Delete :: "'c \<Rightarrow> string \<Rightarrow> string \<Rightarrow> DeleteOptions \<Rightarrow> error option \<times> 'c"

text \<open>
  \<open>filter.ValidationFilter\<close>: a name and a predicate returning (filtered, reason, err). A
  filter may consult the store and the task context; it changes neither.
\<close>

record 'c ValidationFilter =
  filter_Name :: string
  filter_Filter :: "'c \<Rightarrow> TaskContext \<Rightarrow> Unstructured \<Rightarrow> bool \<times> string \<times> error option"

definition PreventRemoveFilterName :: string where
  \<comment> \<open>Modelled from the spec: the name of the PreventRemoveFilter (section 4.2).\<close>
  "PreventRemoveFilterName = ''PreventRemoveFilter''"

text \<open>
  \<open>Pruner\<close>: the inventory client (its one method used here), the dynamic client (a
  resource interface per resource) and the REST mapper.
\<close>

record 'c Pruner =
  InvClient_GetClusterObjs :: "'c \<Rightarrow> InventoryInfo \<Rightarrow> DryRunStrategy \<Rightarrow> error + ObjMetadataSet"
  Client_Resource :: "string \<Rightarrow> 'c ResourceInterface"
  Mapper_RESTMapping :: "GroupKind \<Rightarrow> error + string"

definition namespacedClient :: "'c Pruner \<Rightarrow> ObjMetadata \<Rightarrow> error + 'c ResourceInterface" where
  "namespacedClient p id' =
     (case Mapper_RESTMapping p (GroupKind id') of
        Inl err \<Rightarrow> Inl err
      | Inr mapping_Resource \<Rightarrow> Inr (Client_Resource p mapping_Resource))"

definition getObject :: "'c Pruner \<Rightarrow> ObjMetadata \<Rightarrow> 'c \<Rightarrow> error + Unstructured" where
  "getObject p id' c =
     (case namespacedClient p id' of
        Inl err \<Rightarrow> Inl err
      | Inr nc \<Rightarrow> rc_Get nc c (Namespace id') (Name id'))"

definition deleteObject ::
  "'c Pruner \<Rightarrow> ObjMetadata \<Rightarrow> DeleteOptions \<Rightarrow> 'c \<Rightarrow> error option \<times> 'c" where
  "deleteObject p id' opts c =
     (case namespacedClient p id' of
        Inl err \<Rightarrow> (Some err, c)
      | Inr nc \<Rightarrow> rc_Delete nc c (Namespace id') (Name id') opts)"

definition removeInventoryAnnotation ::
  "'c Pruner \<Rightarrow> Unstructured \<Rightarrow> 'c \<Rightarrow> (Unstructured \<times> error option) \<times> 'c" where
  "removeInventoryAnnotation p obj c =
     (let id' = UnstructuredToObjMetaOrDie obj in
      case GetAnnotations obj of
        None \<Rightarrow> ((obj, None), c)
      | Some annotations \<Rightarrow>
          (case map_of annotations OwningInventoryKey of
             None \<Rightarrow> ((obj, None), c)
           | Some v \<Rightarrow>
               (let obj = obj\<lparr>GetAnnotations := Some (map_delete OwningInventoryKey annotations)\<rparr> in
                case namespacedClient p id' of
                  Inl err \<Rightarrow> ((obj, Some err), c)
                | Inr nc \<Rightarrow>
                    (case rc_Update nc c (Namespace id') obj of
                       (Inl err, c') \<Rightarrow> ((obj, Some err), c')
                     | (Inr updated, c') \<Rightarrow> ((obj, None), c')))))"

text \<open>
  The inner loop of \<open>Prune\<close> over the prune filters. It returns the loop variables
  \<open>obj\<close>, \<open>filtered\<close> and \<open>err\<close> as the loop leaves them, with the store and the task context.
  Every \<open>break\<close> of the source is a branch that does not recurse.
\<close>

fun Prune_filters ::
  "'c Pruner \<Rightarrow> EventFactory \<Rightarrow> Options \<Rightarrow> ObjMetadata \<Rightarrow> 'c ValidationFilter list \<Rightarrow>
   Unstructured \<Rightarrow> 'c \<Rightarrow> TaskContext \<Rightarrow> (Unstructured \<times> bool \<times> error option) \<times> 'c \<times> TaskContext" where
  "Prune_filters p eventFactory opts id' [] obj c taskContext =
     ((obj, False, None), c, taskContext)"
| "Prune_filters p eventFactory opts id' (pruneFilter # pruneFilters) obj c taskContext =
     (case filter_Filter pruneFilter c taskContext obj of
        (filtered, reason, Some err) \<Rightarrow>
          ((obj, filtered, Some err), c,
           AddFailedDelete id' (SendEvent (CreateFailedEvent eventFactory id' err) taskContext))
      | (filtered, reason, None) \<Rightarrow>
          if filtered then
            (if filter_Name pruneFilter = PreventRemoveFilterName then
               (if \<not> ClientOrServerDryRun (DryRunStrategy opts) then
                  (case removeInventoryAnnotation p obj c of
                     ((obj', Some err), c') \<Rightarrow>
                       ((obj', filtered, Some err), c',
                        AddFailedDelete id'
                          (SendEvent (CreateFailedEvent eventFactory id' err) taskContext))
                   | ((obj', None), c') \<Rightarrow>
                       ((obj', filtered, None), c',
                        AddSkippedDelete id'
                          (SendEvent (CreateSkippedEvent eventFactory obj' reason)
                            (AddAbandonedObject id' taskContext))))
                else
                  ((obj, filtered, None), c,
                   AddSkippedDelete id'
                     (SendEvent (CreateSkippedEvent eventFactory obj reason) taskContext)))
             else
               ((obj, filtered, None), c,
                AddSkippedDelete id'
                  (SendEvent (CreateSkippedEvent eventFactory obj reason) taskContext)))
          else Prune_filters p eventFactory opts id' pruneFilters obj c taskContext)"

text \<open>The body of the outer loop of \<open>Prune\<close>, for one object.\<close>

definition Prune_obj ::
  "'c Pruner \<Rightarrow> EventFactory \<Rightarrow> Options \<Rightarrow> 'c ValidationFilter list \<Rightarrow> Unstructured \<Rightarrow>
   'c \<times> TaskContext \<Rightarrow> 'c \<times> TaskContext" where
  "Prune_obj p eventFactory opts pruneFilters obj st =
     (let id' = UnstructuredToObjMetaOrDie obj in
      case Prune_filters p eventFactory opts id' pruneFilters obj (fst st) (snd st) of
        ((obj', filtered, err), c, taskContext) \<Rightarrow>
          if filtered \<or> err \<noteq> None then (c, taskContext)
          else if \<not> ClientOrServerDryRun (DryRunStrategy opts) then
            (case deleteObject p id' \<lparr>del_PropagationPolicy = Some (PropagationPolicy opts)\<rparr> c of
               (Some err, c') \<Rightarrow>
                 (c', AddFailedDelete id'
                        (SendEvent (CreateFailedEvent eventFactory id' err) taskContext))
             | (None, c') \<Rightarrow> (c', SendEvent (CreateSuccessEvent eventFactory obj') taskContext))
          else (c, SendEvent (CreateSuccessEvent eventFactory obj') taskContext))"

fun Prune_loop ::
  "'c Pruner \<Rightarrow> EventFactory \<Rightarrow> Options \<Rightarrow> 'c ValidationFilter list \<Rightarrow> Unstructured list \<Rightarrow>
   'c \<times> TaskContext \<Rightarrow> 'c \<times> TaskContext" where
  "Prune_loop p eventFactory opts pruneFilters [] st = st"
| "Prune_loop p eventFactory opts pruneFilters (obj # objs) st =
     Prune_loop p eventFactory opts pruneFilters objs
       (Prune_obj p eventFactory opts pruneFilters obj st)"

text \<open>
  \<open>Pruner.Prune\<close>: the returned error, the store and the task context after the call.
\<close>

definition Prune ::
  "'c Pruner \<Rightarrow> Unstructured list \<Rightarrow> 'c ValidationFilter list \<Rightarrow> TaskContext \<Rightarrow> string \<Rightarrow>
   Options \<Rightarrow> 'c \<Rightarrow> error option \<times> 'c \<times> TaskContext" where
  "Prune p objs pruneFilters taskContext taskName opts c =
     (let eventFactory = CreateEventFactory (Destroy opts) taskName;
          st = Prune_loop p eventFactory opts pruneFilters objs (c, taskContext)
      in (None, st))"

text \<open>
  \<open>sort.Sort\<close> on a slice with the given \<open>Less\<close>, as an insertion sort. Go's sort is not
  stable; elements that \<open>Less\<close> does not separate may come out in another order there, and
  no statement below depends on their order. \<open>sort.Reverse\<close> swaps the arguments of \<open>Less\<close>.
\<close>

fun sort_insert :: "('a \<Rightarrow> 'a \<Rightarrow> bool) \<Rightarrow> 'a \<Rightarrow> 'a list \<Rightarrow> 'a list" where
  "sort_insert Less x [] = [x]"
| "sort_insert Less x (y # ys) =
     (if Less x y then x # y # ys else y # sort_insert Less x ys)"

fun sort_Sort :: "('a \<Rightarrow> 'a \<Rightarrow> bool) \<Rightarrow> 'a list \<Rightarrow> 'a list" where
  "sort_Sort Less [] = []"
| "sort_Sort Less (x # xs) = sort_insert Less x (sort_Sort Less xs)"

definition sort_Reverse :: "('a \<Rightarrow> 'a \<Rightarrow> bool) \<Rightarrow> 'a \<Rightarrow> 'a \<Rightarrow> bool" where
  "sort_Reverse Less a b = Less b a"

text \<open>The loop of \<open>GetPruneObjs\<close> that fetches the live objects.\<close>

fun GetPruneObjs_loop ::
  "'c Pruner \<Rightarrow> 'c \<Rightarrow> ObjMetadata list \<Rightarrow> Unstructured list \<Rightarrow> error + Unstructured list" where
  "GetPruneObjs_loop p c [] objs = Inr objs"
| "GetPruneObjs_loop p c (id' # ids) objs =
     (case getObject p id' c of
        Inl err \<Rightarrow>
          if IsNoMatchError err then GetPruneObjs_loop p c ids objs
          else if IsNotFound err then GetPruneObjs_loop p c ids objs
          else Inl err
      | Inr pruneObj \<Rightarrow> GetPruneObjs_loop p c ids (objs @ [pruneObj]))"

text \<open>
  \<open>Pruner.GetPruneObjs\<close>. The \<open>Less\<close> of \<open>ordering.SortableUnstructureds\<close> (the apply
  order) is a parameter: the ordering package is not among the sources.
\<close>

definition GetPruneObjs ::
  "'c Pruner \<Rightarrow> (Unstructured \<Rightarrow> Unstructured \<Rightarrow> bool) \<Rightarrow> InventoryInfo \<Rightarrow> Unstructured list \<Rightarrow>
   Options \<Rightarrow> 'c \<Rightarrow> error + Unstructured list" where
  "GetPruneObjs p SortableUnstructureds_Less invInfo objs opts c =
     (let ids = UnstructuredsToObjMetasOrDie objs in
      case InvClient_GetClusterObjs p c invInfo (DryRunStrategy opts) of
        Inl err \<Rightarrow> Inl err
      | Inr invIDs \<Rightarrow>
          (let ids = Diff_oms invIDs ids in
           case GetPruneObjs_loop p c ids [] of
             Inl err \<Rightarrow> Inl err
           | Inr objs \<Rightarrow> Inr (sort_Sort (sort_Reverse SortableUnstructureds_Less) objs)))"

text \<open>Notions used to state the facts about the pruner.\<close>

definition filter_passes :: "'c ValidationFilter \<Rightarrow> 'c \<Rightarrow> TaskContext \<Rightarrow> Unstructured \<Rightarrow> bool" where
  \<comment> \<open>The filter neither blocks the object nor fails on it.\<close>
  "filter_passes g c taskContext obj =
     (case filter_Filter g c taskContext obj of
        (filtered, reason, err) \<Rightarrow> \<not> filtered \<and> err = None)"

fun failedIds :: "FactoryEvent list \<Rightarrow> ObjMetadata list" where
  \<comment> \<open>The ids of the Failed events of a list of events, in order.\<close>
  "failedIds [] = []"
| "failedIds (CreateFailedEvent ef i err # es) = i # failedIds es"
| "failedIds (e # es) = failedIds es"

definition owner_annotation :: "Unstructured \<Rightarrow> string option" where
  \<comment> \<open>The value of the owning-inventory annotation of an object, if it has one.\<close>
  "owner_annotation obj =
     (case GetAnnotations obj of None \<Rightarrow> None | Some m \<Rightarrow> map_of m OwningInventoryKey)"

definition strict_weak_order :: "('a \<Rightarrow> 'a \<Rightarrow> bool) \<Rightarrow> bool" where
  \<comment> \<open>What \<open>sort.Sort\<close> asks of \<open>Less\<close>: asymmetric, and incomparability is transitive.\<close>
  "strict_weak_order Less =
     ((\<forall>a b. \<not> (Less a b \<and> Less b a)) \<and> (\<forall>a b c. \<not> Less a b \<and> \<not> Less b c \<longrightarrow> \<not> Less a c))"

definition fetch_ok :: "'c Pruner \<Rightarrow> 'c \<Rightarrow> ObjMetadata \<Rightarrow> bool" where
  \<comment> \<open>Fetching the id gives an object, or one of the two errors that are skipped.\<close>
  "fetch_ok p c i =
     (case getObject p i c of
        Inl err \<Rightarrow> IsNoMatchError err \<or> IsNotFound err
      | Inr obj \<Rightarrow> True)"

text \<open>
  A store for closed instances, in the manner of the fake dynamic client of client-go:
  the objects it holds, found by namespace and name. Update and delete of an absent
  object are not-found; create of a present one is already-exists.
\<close>

type_synonym FakeCluster = "Unstructured list"

definition fake_has :: "string \<Rightarrow> string \<Rightarrow> Unstructured \<Rightarrow> bool" where
  "fake_has ns nm obj = (GetNamespace obj = ns \<and> GetName obj = nm)"

definition fake_Update :: "FakeCluster \<Rightarrow> string \<Rightarrow> Unstructured \<Rightarrow> (error + Unstructured) \<times> FakeCluster" where
  "fake_Update c ns obj =
     (case find (fake_has ns (GetName obj)) c of
        None \<Rightarrow> (Inl NotFoundError, c)
      | Some old \<Rightarrow> (Inr obj, map (\<lambda>x. if fake_has ns (GetName obj) x then obj else x) c))"

definition FakeResource :: "FakeCluster ResourceInterface" where
  "FakeResource =
     \<lparr>rc_Get = (\<lambda>c ns nm. case find (fake_has ns nm) c of
                  None \<Rightarrow> Inl NotFoundError | Some obj \<Rightarrow> Inr obj),
      rc_List = (\<lambda>c. Inr c),
      rc_Create = (\<lambda>c ns obj. case find (fake_has ns (GetName obj)) c of
                  None \<Rightarrow> (Inr obj, c @ [obj]) | Some old \<Rightarrow> (Inl AlreadyExistsError, c)),
      rc_Update = fake_Update,
      rc_UpdateStatus = fake_Update,
      rc_Delete = (\<lambda>c ns nm opts. case find (fake_has ns nm) c of
                  None \<Rightarrow> (Some NotFoundError, c)
                | Some old \<Rightarrow> (None, filter (\<lambda>x. \<not> fake_has ns nm x) c))\<rparr>"

definition FakePruner :: "ObjMetadataSet \<Rightarrow> FakeCluster Pruner" where
  \<comment> \<open>The mapper knows three kinds; the kind "Unreachable" stands for a failing discovery.\<close>
  "FakePruner invObjs =
     \<lparr>InvClient_GetClusterObjs = (\<lambda>c invInfo dryRun. Inr invObjs),
      Client_Resource = (\<lambda>resource. FakeResource),
      Mapper_RESTMapping = (\<lambda>gk.
        if Kind gk = ''Pod'' \<or> Kind gk = ''ConfigMap'' \<or> Kind gk = ''Namespace'' then Inr (Kind gk)
        else if Kind gk = ''Unreachable'' then Inl (Errorf ''discovery failed'')
        else Inl NoMatchError)\<rparr>"

definition testObject :: "string \<Rightarrow> string \<Rightarrow> strmap option \<Rightarrow> Unstructured" where
  "testObject kind nm annots =
     \<lparr>GetGroupKind = MkGroupKind [] kind, GetNamespace = ''test-namespace'', GetName = nm,
      GetLabels = [], GetAnnotations = annots, GetResourceVersion = [], GetGeneration = 0,
      dataField = DataAbsent, statusField = StatusAbsent\<rparr>"

definition testFilter :: "string \<Rightarrow> string \<Rightarrow> string \<Rightarrow> error option \<Rightarrow> FakeCluster ValidationFilter" where
  \<comment> \<open>A filter that blocks the object of the given name, or fails on it.\<close>
  "testFilter filterName nm reason err =
     \<lparr>filter_Name = filterName,
      filter_Filter = (\<lambda>c taskContext obj.
        if GetName obj = nm then (err = None, reason, err) else (False, [], None))\<rparr>"

definition Less_by_name :: "Unstructured \<Rightarrow> Unstructured \<Rightarrow> bool" where
  \<comment> \<open>An apply order for closed instances: shorter names first.\<close>
  "Less_by_name a b = (length (GetName a) < length (GetName b))"

definition prune_ids :: "ObjMetadataSet \<Rightarrow> Unstructured list \<Rightarrow> ObjMetadata set" where
  \<comment> \<open>The prune set: the ids of the inventory that are not ids of the desired objects.\<close>
  "prune_ids invIDs objs = set invIDs - set (UnstructuredsToObjMetasOrDie objs)"

definition pod :: "string \<Rightarrow> Unstructured" where
  "pod nm = testObject ''Pod'' nm None"

definition prune_opts :: Options where
  "prune_opts = \<lparr>DryRunStrategy = DryRunNone, PropagationPolicy = DeletePropagationBackground,
     Destroy = False\<rparr>"

definition fake_inventory :: ObjMetadataSet where
  "fake_inventory = map UnstructuredToObjMetaOrDie
     [pod ''a'', pod ''bb'', pod ''ccc'', pod ''gone'', testObject ''Widget'' ''w'' None]"

definition fake_cluster :: FakeCluster where
  "fake_cluster = [pod ''a'', pod ''bb'', pod ''ccc'']"

definition without_owner_annotation :: "Unstructured \<Rightarrow> Unstructured" where
  \<comment> \<open>The object with the owning-inventory annotation deleted from its annotations.\<close>
  "without_owner_annotation obj =
     obj\<lparr>GetAnnotations := map_option (map_delete OwningInventoryKey) (GetAnnotations obj)\<rparr>"

definition record_skipped :: "ObjMetadata \<Rightarrow> FactoryEvent \<Rightarrow> TaskContext \<Rightarrow> TaskContext" where
  \<comment> \<open>The task context with one more skipped delete and one more event.\<close>
  "record_skipped i e tc =
     tc\<lparr>skippedDeletes := skippedDeletes tc @ [i], eventChannel := eventChannel tc @ [e]\<rparr>"

definition record_failed :: "ObjMetadata \<Rightarrow> FactoryEvent \<Rightarrow> TaskContext \<Rightarrow> TaskContext" where
  \<comment> \<open>The task context with one more failed delete and one more event.\<close>
  "record_failed i e tc =
     tc\<lparr>failedDeletes := failedDeletes tc @ [i], eventChannel := eventChannel tc @ [e]\<rparr>"

definition record_abandoned :: "ObjMetadata \<Rightarrow> TaskContext \<Rightarrow> TaskContext" where
  \<comment> \<open>The task context with one more abandoned object.\<close>
  "record_abandoned i tc = tc\<lparr>abandonedObjects := abandonedObjects tc @ [i]\<rparr>"

definition owned_pod :: "string \<Rightarrow> string \<Rightarrow> Unstructured" where
  "owned_pod kind nm = testObject kind nm (Some [(OwningInventoryKey, ''inv-1'')])"

definition test_filters :: "FakeCluster ValidationFilter list" where
  "test_filters =
     [testFilter ''CurrentUIDFilter'' ''stale'' ''uid differs'' None,
      testFilter ''InventoryPolicyFilter'' ''broken'' [] (Some (Errorf ''policy check failed'')),
      testFilter PreventRemoveFilterName ''keep'' ''prevent removal'' None]"

subsection \<open>Facts about the pruner\<close>

lemma Prune_filters_passing_prefix:
  "list_all (\<lambda>g. filter_passes g c tc obj) pre \<Longrightarrow>
   Prune_filters p ef opts i (pre @ fs) obj c tc = Prune_filters p ef opts i fs obj c tc"
  by (induction pre) (auto simp: filter_passes_def split: prod.splits option.splits)

lemma Prune_filters_all_pass:
  "list_all (\<lambda>g. filter_passes g c tc obj) fs \<Longrightarrow>
   Prune_filters p ef opts i fs obj c tc = ((obj, False, None), c, tc)"
  using Prune_filters_passing_prefix [of c tc obj fs p ef opts i "[]"] by simp

lemma Prune_Cons:
  "Prune p (obj # objs) fs tc nm opts c =
     Prune p objs fs
       (snd (Prune_obj p (CreateEventFactory (Destroy opts) nm) opts fs obj (c, tc))) nm opts
       (fst (Prune_obj p (CreateEventFactory (Destroy opts) nm) opts fs obj (c, tc)))"
  by (simp add: Prune_def Let_def)

lemma Prune_returns_nil: "fst (Prune p objs fs tc nm opts c) = None"
  by (simp add: Prune_def Let_def)

lemma failedIds_append: "failedIds (xs @ ys) = failedIds xs @ failedIds ys"
  by (induction xs rule: failedIds.induct) auto

lemma Prune_filters_ctx:
  "Prune_filters p ef opts i fs obj c tc = ((obj', filtered, err), c', tc') \<Longrightarrow>
   (if filtered \<or> err \<noteq> None
    then (\<exists>e. eventChannel tc' = eventChannel tc @ [e]
            \<and> failedDeletes tc' = failedDeletes tc @ failedIds [e]
            \<and> (err \<noteq> None \<longleftrightarrow> (\<exists>x. e = CreateFailedEvent ef i x)))
    else tc' = tc)"
  apply (induction fs)
   apply simp
  apply (auto simp: AddFailedDelete_def SendEvent_def AddSkippedDelete_def AddAbandonedObject_def
         split: prod.splits option.splits if_splits)
  done

lemma Prune_obj_ctx:
  "Prune_obj p ef opts fs obj (c, tc) = (c', tc') \<Longrightarrow>
   \<exists>e. eventChannel tc' = eventChannel tc @ [e]
     \<and> failedDeletes tc' = failedDeletes tc @ failedIds [e]"
  apply (simp add: Prune_obj_def Let_def split: prod.splits)
  apply (auto dest!: Prune_filters_ctx simp: AddFailedDelete_def SendEvent_def split: if_splits option.splits)
  done

lemma map_of_map_delete: "map_of (map_delete k m) k = None"
  by (induction m) (auto simp: map_delete_def)

lemma removeInventoryAnnotation_strips:
  "owner_annotation (fst (fst (removeInventoryAnnotation p obj c))) = None"
  by (auto simp: removeInventoryAnnotation_def owner_annotation_def Let_def map_of_map_delete
      split: option.splits sum.splits prod.splits)

lemma removeInventoryAnnotation_absent:
  "owner_annotation obj = None \<Longrightarrow> removeInventoryAnnotation p obj c = ((obj, None), c)"
  by (auto simp: removeInventoryAnnotation_def owner_annotation_def Let_def
      split: option.splits)

lemma removeInventoryAnnotation_present:
  assumes "GetAnnotations obj = Some annotations"
    and "map_of annotations OwningInventoryKey = Some v"
  shows "removeInventoryAnnotation p obj c =
     (let obj' = obj\<lparr>GetAnnotations := Some (map_delete OwningInventoryKey annotations)\<rparr> in
      case namespacedClient p (UnstructuredToObjMetaOrDie obj) of
        Inl err \<Rightarrow> ((obj', Some err), c)
      | Inr nc \<Rightarrow>
          (case rc_Update nc c (GetNamespace obj) obj' of
             (Inl err, c') \<Rightarrow> ((obj', Some err), c')
           | (Inr updated, c') \<Rightarrow> ((obj', None), c')))"
  using assms
  by (simp add: removeInventoryAnnotation_def Let_def UnstructuredToObjMetaOrDie_def
      split: sum.splits)

lemma Prune_obj_filter_error:
  assumes "list_all (\<lambda>g. filter_passes g c tc obj) pre"
    and "filter_Filter f c tc obj = (b, reason, Some err)"
  shows "Prune_obj p ef opts (pre @ f # rest) obj (c, tc) =
     (c, tc\<lparr>failedDeletes := failedDeletes tc @ [UnstructuredToObjMetaOrDie obj],
            eventChannel := eventChannel tc
               @ [CreateFailedEvent ef (UnstructuredToObjMetaOrDie obj) err]\<rparr>)"
  using assms
  by (simp add: Prune_obj_def Let_def Prune_filters_passing_prefix AddFailedDelete_def
      SendEvent_def)

lemma Prune_obj_blocked:
  assumes "list_all (\<lambda>g. filter_passes g c tc obj) pre"
    and "filter_Filter f c tc obj = (True, reason, None)"
    and "\<not> ClientOrServerDryRun (DryRunStrategy opts)"
  shows "Prune_obj p ef opts (pre @ f # rest) obj (c, tc) =
     (if filter_Name f = PreventRemoveFilterName then
        (case removeInventoryAnnotation p obj c of
           ((obj', None), c') \<Rightarrow>
             (c', tc\<lparr>skippedDeletes := skippedDeletes tc @ [UnstructuredToObjMetaOrDie obj],
                    abandonedObjects := abandonedObjects tc @ [UnstructuredToObjMetaOrDie obj],
                    eventChannel := eventChannel tc @ [CreateSkippedEvent ef obj' reason]\<rparr>)
         | ((obj', Some err), c') \<Rightarrow>
             (c', tc\<lparr>failedDeletes := failedDeletes tc @ [UnstructuredToObjMetaOrDie obj],
                    eventChannel := eventChannel tc
                      @ [CreateFailedEvent ef (UnstructuredToObjMetaOrDie obj) err]\<rparr>))
      else
        (c, tc\<lparr>skippedDeletes := skippedDeletes tc @ [UnstructuredToObjMetaOrDie obj],
               eventChannel := eventChannel tc @ [CreateSkippedEvent ef obj reason]\<rparr>))"
  using assms
  by (auto simp add: Prune_obj_def Let_def Prune_filters_passing_prefix AddFailedDelete_def
      SendEvent_def AddSkippedDelete_def AddAbandonedObject_def split: prod.splits option.splits)

lemma Prune_obj_delete:
  assumes "list_all (\<lambda>g. filter_passes g c tc obj) fs"
    and "\<not> ClientOrServerDryRun (DryRunStrategy opts)"
  shows "Prune_obj p ef opts fs obj (c, tc) =
     (case deleteObject p (UnstructuredToObjMetaOrDie obj)
             \<lparr>del_PropagationPolicy = Some (PropagationPolicy opts)\<rparr> c of
        (Some err, c') \<Rightarrow>
          (c', tc\<lparr>failedDeletes := failedDeletes tc @ [UnstructuredToObjMetaOrDie obj],
                 eventChannel := eventChannel tc
                   @ [CreateFailedEvent ef (UnstructuredToObjMetaOrDie obj) err]\<rparr>)
      | (None, c') \<Rightarrow>
          (c', tc\<lparr>eventChannel := eventChannel tc @ [CreateSuccessEvent ef obj]\<rparr>))"
  using assms
  by (auto simp add: Prune_obj_def Let_def Prune_filters_all_pass AddFailedDelete_def
      SendEvent_def split: prod.splits option.splits)

lemma Prune_loop_ctx:
  "\<exists>es. eventChannel (snd (Prune_loop p ef opts fs objs st)) = eventChannel (snd st) @ es
      \<and> length es = length objs
      \<and> failedDeletes (snd (Prune_loop p ef opts fs objs st))
          = failedDeletes (snd st) @ failedIds es"
proof (induction objs arbitrary: st)
  case Nil
  show ?case by simp
next
  case (Cons obj objs)
  obtain c tc where st: "st = (c, tc)" by (cases st)
  obtain c' tc' where step: "Prune_obj p ef opts fs obj (c, tc) = (c', tc')"
    by (cases "Prune_obj p ef opts fs obj (c, tc)")
  from Prune_obj_ctx [OF step] obtain e where
    e: "eventChannel tc' = eventChannel tc @ [e]"
       "failedDeletes tc' = failedDeletes tc @ failedIds [e]" by blast
  from Cons.IH [of "(c', tc')"] obtain es where
    es: "eventChannel (snd (Prune_loop p ef opts fs objs (c', tc'))) = eventChannel tc' @ es"
        "length es = length objs"
        "failedDeletes (snd (Prune_loop p ef opts fs objs (c', tc'))) = failedDeletes tc' @ failedIds es"
    by auto
  show ?case
    apply (rule exI [of _ "e # es"])
    using e es st step by (simp add: failedIds_append [of "[e]" es, simplified])
qed

lemma set_sort_insert: "set (sort_insert Less x xs) = insert x (set xs)"
  by (induction xs) auto

lemma set_sort_Sort: "set (sort_Sort Less xs) = set xs"
  by (induction xs) (auto simp: set_sort_insert)

lemma length_sort_insert: "length (sort_insert Less x xs) = Suc (length xs)"
  by (induction xs) auto

lemma length_sort_Sort: "length (sort_Sort Less xs) = length xs"
  by (induction xs) (auto simp: length_sort_insert)

lemma sorted_sort_insert:
  assumes "strict_weak_order Less"
  shows "sorted_wrt (\<lambda>a b. \<not> Less b a) xs \<Longrightarrow> sorted_wrt (\<lambda>a b. \<not> Less b a) (sort_insert Less x xs)"
proof (induction xs)
  case Nil
  show ?case by simp
next
  case (Cons y ys)
  from assms have asym: "\<And>a b. Less a b \<Longrightarrow> \<not> Less b a"
    and nt: "\<And>a b c. \<not> Less a b \<Longrightarrow> \<not> Less b c \<Longrightarrow> \<not> Less a c"
    unfolding strict_weak_order_def by blast+
  show ?case
  proof (cases "Less x y")
    case True
    have "\<not> Less z x" if "z \<in> set ys" for z
    proof -
      from Cons.prems that have "\<not> Less z y" by simp
      moreover from True have "\<not> Less y x" by (rule asym)
      ultimately show ?thesis by (rule nt)
    qed
    with True Cons.prems show ?thesis by (auto dest: asym)
  next
    case False
    with Cons show ?thesis by (auto simp: set_sort_insert)
  qed
qed

lemma sorted_sort_Sort:
  assumes "strict_weak_order Less"
  shows "sorted_wrt (\<lambda>a b. \<not> Less b a) (sort_Sort Less xs)"
  by (induction xs) (auto intro: sorted_sort_insert [OF assms])

lemma strict_weak_order_Reverse:
  "strict_weak_order Less \<Longrightarrow> strict_weak_order (sort_Reverse Less)"
  unfolding strict_weak_order_def sort_Reverse_def by blast

lemma sorted_sort_Reverse:
  assumes "strict_weak_order Less"
  shows "sorted_wrt (\<lambda>a b. \<not> Less a b) (sort_Sort (sort_Reverse Less) xs)"
  using sorted_sort_Sort [OF strict_weak_order_Reverse [OF assms], of xs]
  by (simp add: sort_Reverse_def)

lemma GetPruneObjs_loop_Inr:
  "GetPruneObjs_loop p c ids acc = Inr objs \<Longrightarrow>
     set objs = set acc \<union> {obj. \<exists>i \<in> set ids. getObject p i c = Inr obj}
   \<and> list_all (fetch_ok p c) ids"
proof (induction ids arbitrary: acc)
  case Nil
  then show ?case by simp
next
  case (Cons i ids)
  show ?case
  proof (cases "getObject p i c")
    case (Inl err)
    with Cons.prems have "GetPruneObjs_loop p c ids acc = Inr objs" and "IsNoMatchError err \<or> IsNotFound err"
      by (auto split: if_splits)
    with Cons.IH [of acc] Inl show ?thesis by (auto simp: fetch_ok_def)
  next
    case (Inr obj)
    with Cons.prems have "GetPruneObjs_loop p c ids (acc @ [obj]) = Inr objs" by simp
    with Cons.IH [of "acc @ [obj]"] Inr show ?thesis by (auto simp: fetch_ok_def)
  qed
qed

lemma GetPruneObjs_loop_Inl:
  "GetPruneObjs_loop p c ids acc = Inl err \<Longrightarrow>
     (\<exists>i \<in> set ids. getObject p i c = Inl err) \<and> \<not> IsNoMatchError err \<and> \<not> IsNotFound err"
proof (induction ids arbitrary: acc)
  case Nil
  then show ?case by simp
next
  case (Cons i ids)
  show ?case
  proof (cases "getObject p i c")
    case (Inl e)
    show ?thesis
    proof (cases "IsNoMatchError e \<or> IsNotFound e")
      case True
      with Cons.prems Inl have "GetPruneObjs_loop p c ids acc = Inl err"
        by (auto split: if_splits)
      from Cons.IH [OF this] show ?thesis by auto
    next
      case False
      with Cons.prems Inl have "e = err" by (auto split: if_splits)
      with False Inl show ?thesis by auto
    qed
  next
    case (Inr obj)
    with Cons.prems have "GetPruneObjs_loop p c ids (acc @ [obj]) = Inl err" by simp
    from Cons.IH [OF this] show ?thesis by auto
  qed
qed

lemma GetPruneObjs_Inr:
  assumes "GetPruneObjs p Less invInfo objs opts c = Inr pruneObjs"
  shows "\<exists>invIDs. InvClient_GetClusterObjs p c invInfo (DryRunStrategy opts) = Inr invIDs
     \<and> (\<exists>fetched. GetPruneObjs_loop p c (Diff_oms invIDs (UnstructuredsToObjMetasOrDie objs)) [] = Inr fetched
        \<and> pruneObjs = sort_Sort (sort_Reverse Less) fetched)"
  using assms by (auto simp: GetPruneObjs_def Let_def split: sum.splits)

lemma Less_by_name_swo: "strict_weak_order Less_by_name"
  by (auto simp: strict_weak_order_def Less_by_name_def)

lemmas fake_eval = GetPruneObjs_def FakePruner_def UnstructuredsToObjMetasOrDie_def
  UnstructuredToObjMetaOrDie_def pod_def testObject_def prune_opts_def Diff_oms_def getObject_def
  namespacedClient_def FakeResource_def fake_has_def IsNoMatchError_def IsNotFound_def
  fake_inventory_def fake_cluster_def Less_by_name_def sort_Reverse_def

text \<open>
  Claim C6. \<open>GetPruneObjs\<close> returns the error of the inventory client if it has one.
  Otherwise it returns exactly the live objects fetched for the ids of the prune set
  (inventory ids minus the ids of the desired objects), and then every failed fetch in
  the prune set was a no-match or a not-found; or it returns an error, and then that
  error is the fetch error of an id of the prune set and is neither no-match nor
  not-found.
\<close>

theorem GetPruneObjs_result:
  "case InvClient_GetClusterObjs p c invInfo (DryRunStrategy opts) of
     Inl err \<Rightarrow> GetPruneObjs p Less invInfo objs opts c = Inl err
   | Inr invIDs \<Rightarrow>
       (case GetPruneObjs p Less invInfo objs opts c of
          Inr pruneObjs \<Rightarrow>
            set pruneObjs = {obj. \<exists>i \<in> prune_ids invIDs objs. getObject p i c = Inr obj}
            \<and> (\<forall>i \<in> prune_ids invIDs objs. fetch_ok p c i)
        | Inl err \<Rightarrow>
            (\<exists>i \<in> prune_ids invIDs objs. getObject p i c = Inl err)
            \<and> \<not> IsNoMatchError err \<and> \<not> IsNotFound err)"
proof (cases "InvClient_GetClusterObjs p c invInfo (DryRunStrategy opts)")
  case (Inl err)
  then show ?thesis by (simp add: GetPruneObjs_def)
next
  case (Inr invIDs)
  let ?ids = "Diff_oms invIDs (UnstructuredsToObjMetasOrDie objs)"
  have ids: "set ?ids = prune_ids invIDs objs"
    by (simp add: set_Diff_oms prune_ids_def)
  show ?thesis
  proof (cases "GetPruneObjs_loop p c ?ids []")
    case (Inl err)
    from GetPruneObjs_loop_Inl [OF Inl] ids Inl Inr show ?thesis
      by (simp add: GetPruneObjs_def)
  next
    case fetched: (Inr found)
    from GetPruneObjs_loop_Inr [OF fetched] ids fetched Inr show ?thesis
      by (simp add: GetPruneObjs_def set_sort_Sort list_all_iff)
  qed
qed

theorem GetPruneObjs_result_witness:
  "GetPruneObjs (FakePruner fake_inventory) Less_by_name (fakeInventoryInfo ''inv'') [pod ''a'']
      prune_opts fake_cluster = Inr [pod ''ccc'', pod ''bb'']
 \<and> set [pod ''ccc'', pod ''bb''] =
      {obj. \<exists>i \<in> prune_ids fake_inventory [pod ''a''].
              getObject (FakePruner fake_inventory) i fake_cluster = Inr obj}
 \<and> GetPruneObjs (FakePruner (UnstructuredToObjMetaOrDie (testObject ''Unreachable'' ''u'' None) # fake_inventory))
      Less_by_name (fakeInventoryInfo ''inv'') [pod ''a''] prune_opts fake_cluster
      = Inl (Errorf ''discovery failed'')"
proof -
  have r: "GetPruneObjs (FakePruner fake_inventory) Less_by_name (fakeInventoryInfo ''inv'')
      [pod ''a''] prune_opts fake_cluster = Inr [pod ''ccc'', pod ''bb'']"
    by (simp add: fake_eval)
  have g: "InvClient_GetClusterObjs (FakePruner fake_inventory) fake_cluster
      (fakeInventoryInfo ''inv'') (DryRunStrategy prune_opts) = Inr fake_inventory"
    by (simp add: FakePruner_def)
  have e: "GetPruneObjs (FakePruner (UnstructuredToObjMetaOrDie (testObject ''Unreachable'' ''u'' None) # fake_inventory))
      Less_by_name (fakeInventoryInfo ''inv'') [pod ''a''] prune_opts fake_cluster
      = Inl (Errorf ''discovery failed'')"
    by (simp add: fake_eval)
  from GetPruneObjs_result [where p = "FakePruner fake_inventory" and c = fake_cluster
      and invInfo = "fakeInventoryInfo ''inv''" and opts = prune_opts and Less = Less_by_name
      and objs = "[pod ''a'']"] r g e
  show ?thesis by simp
qed

text \<open>
  Claim C7. With \<open>Less\<close> the apply order (a strict weak order, as \<open>sort.Sort\<close> requires), the
  list returned by \<open>GetPruneObjs\<close> is in strictly reverse order: whenever the object at
  position i would be applied before the object at position j, position j comes first.
\<close>

theorem GetPruneObjs_order:
  assumes "strict_weak_order Less"
    and "GetPruneObjs p Less invInfo objs opts c = Inr pruneObjs"
    and "i < length pruneObjs" and "j < length pruneObjs"
    and "Less (pruneObjs ! i) (pruneObjs ! j)"
  shows "j < i"
proof -
  from GetPruneObjs_Inr [OF assms(2)] obtain fetched where
    "pruneObjs = sort_Sort (sort_Reverse Less) fetched" by blast
  with sorted_sort_Reverse [OF assms(1)] have s: "sorted_wrt (\<lambda>a b. \<not> Less a b) pruneObjs"
    by simp
  from assms(1,5) have ne: "i \<noteq> j"
    unfolding strict_weak_order_def by metis
  show ?thesis
  proof (rule ccontr)
    assume "\<not> j < i"
    with ne have "i < j" by simp
    from sorted_wrt_nth_less [OF s this assms(4)] assms(5) show False by simp
  qed
qed

theorem GetPruneObjs_order_witness:
  "strict_weak_order Less_by_name
 \<and> GetPruneObjs (FakePruner fake_inventory) Less_by_name (fakeInventoryInfo ''inv'') []
      prune_opts fake_cluster = Inr [pod ''ccc'', pod ''bb'', pod ''a'']
 \<and> Less_by_name ([pod ''ccc'', pod ''bb'', pod ''a''] ! 2) ([pod ''ccc'', pod ''bb'', pod ''a''] ! 0)
 \<and> (0::nat) < 2"
proof -
  have r: "GetPruneObjs (FakePruner fake_inventory) Less_by_name (fakeInventoryInfo ''inv'') []
      prune_opts fake_cluster = Inr [pod ''ccc'', pod ''bb'', pod ''a'']"
    by (simp add: fake_eval)
  have l: "Less_by_name ([pod ''ccc'', pod ''bb'', pod ''a''] ! 2) ([pod ''ccc'', pod ''bb'', pod ''a''] ! 0)"
    by (simp add: Less_by_name_def pod_def testObject_def)
  have "(0::nat) < 2"
    by (rule GetPruneObjs_order [OF Less_by_name_swo r _ _ l]) simp_all
  with Less_by_name_swo r l show ?thesis by simp
qed

lemma removeInventoryAnnotation_update:
  assumes "owner_annotation obj = Some v"
  shows "removeInventoryAnnotation p obj c =
     (case namespacedClient p (UnstructuredToObjMetaOrDie obj) of
        Inl err \<Rightarrow> ((without_owner_annotation obj, Some err), c)
      | Inr nc \<Rightarrow>
          (case rc_Update nc c (GetNamespace obj) (without_owner_annotation obj) of
             (Inl err, c') \<Rightarrow> ((without_owner_annotation obj, Some err), c')
           | (Inr updated, c') \<Rightarrow> ((without_owner_annotation obj, None), c')))"
proof -
  from assms obtain annotations where a: "GetAnnotations obj = Some annotations"
    and m: "map_of annotations OwningInventoryKey = Some v"
    by (auto simp: owner_annotation_def split: option.splits)
  have w: "without_owner_annotation obj =
      obj\<lparr>GetAnnotations := Some (map_delete OwningInventoryKey annotations)\<rparr>"
    using a by (simp add: without_owner_annotation_def)
  show ?thesis
    unfolding w removeInventoryAnnotation_present [OF a m, of p c] Let_def ..
qed

lemmas prune_eval = Prune_def Prune_obj_def FakePruner_def UnstructuredToObjMetaOrDie_def
  testObject_def prune_opts_def namespacedClient_def FakeResource_def fake_has_def fake_Update_def
  owned_pod_def test_filters_def testFilter_def filter_passes_def removeInventoryAnnotation_def
  deleteObject_def CreateEventFactory_def ClientOrServerDryRun_def PreventRemoveFilterName_def
  OwningInventoryKey_def map_delete_def without_owner_annotation_def record_skipped_def
  record_failed_def record_abandoned_def NewTaskContext_def AddFailedDelete_def
  AddSkippedDelete_def AddAbandonedObject_def SendEvent_def Let_def

text \<open>
  Claim C8. In a \<open>Prune\<close> that is not a dry run, let the filters before \<open>f\<close> pass the object
  and let \<open>f\<close> block it with a reason. If \<open>f\<close> is the PreventRemoveFilter, the annotation is
  removed: when that succeeds the id is recorded as abandoned and as a skipped delete and a
  Skipped event with the stripped object is sent; when it fails the id is recorded as a
  failed delete only, with a Failed event. If \<open>f\<close> is any other filter the id is recorded
  as a skipped delete only, with a Skipped event. In each case \<open>Prune\<close> goes on with the
  remaining objects. The object returned by the removal never carries the owning-inventory
  annotation, and when the live object carried it the removal is the resource client's
  \<open>Update\<close> of the stripped object (or the REST mapper's error).
\<close>

theorem Prune_blocked_object:
  assumes "list_all (\<lambda>g. filter_passes g c tc obj) pre"
    and "filter_Filter f c tc obj = (True, reason, None)"
    and "\<not> ClientOrServerDryRun (DryRunStrategy opts)"
  shows "Prune p (obj # objs) (pre @ f # rest) tc nm opts c =
     (if filter_Name f = PreventRemoveFilterName then
        (case removeInventoryAnnotation p obj c of
           ((obj', None), c') \<Rightarrow>
             Prune p objs (pre @ f # rest)
               (record_skipped (UnstructuredToObjMetaOrDie obj)
                  (CreateSkippedEvent (CreateEventFactory (Destroy opts) nm) obj' reason)
                  (record_abandoned (UnstructuredToObjMetaOrDie obj) tc))
               nm opts c'
         | ((obj', Some err), c') \<Rightarrow>
             Prune p objs (pre @ f # rest)
               (record_failed (UnstructuredToObjMetaOrDie obj)
                  (CreateFailedEvent (CreateEventFactory (Destroy opts) nm)
                     (UnstructuredToObjMetaOrDie obj) err) tc)
               nm opts c')
      else
        Prune p objs (pre @ f # rest)
          (record_skipped (UnstructuredToObjMetaOrDie obj)
             (CreateSkippedEvent (CreateEventFactory (Destroy opts) nm) obj reason) tc)
          nm opts c)
   \<and> owner_annotation (fst (fst (removeInventoryAnnotation p obj c))) = None
   \<and> (case owner_annotation obj of
        None \<Rightarrow> removeInventoryAnnotation p obj c = ((obj, None), c)
      | Some v \<Rightarrow>
          (case namespacedClient p (UnstructuredToObjMetaOrDie obj) of
             Inl err \<Rightarrow>
               removeInventoryAnnotation p obj c = ((without_owner_annotation obj, Some err), c)
           | Inr nc \<Rightarrow>
               removeInventoryAnnotation p obj c =
                 ((without_owner_annotation obj,
                   (case fst (rc_Update nc c (GetNamespace obj) (without_owner_annotation obj)) of
                      Inl err \<Rightarrow> Some err | Inr updated \<Rightarrow> None)),
                  snd (rc_Update nc c (GetNamespace obj) (without_owner_annotation obj)))))"
proof -
  have step: "Prune_obj p (CreateEventFactory (Destroy opts) nm) opts (pre @ f # rest) obj (c, tc) =
     (if filter_Name f = PreventRemoveFilterName then
        (case removeInventoryAnnotation p obj c of
           ((obj', None), c') \<Rightarrow>
             (c', record_skipped (UnstructuredToObjMetaOrDie obj)
                  (CreateSkippedEvent (CreateEventFactory (Destroy opts) nm) obj' reason)
                  (record_abandoned (UnstructuredToObjMetaOrDie obj) tc))
         | ((obj', Some err), c') \<Rightarrow>
             (c', record_failed (UnstructuredToObjMetaOrDie obj)
                  (CreateFailedEvent (CreateEventFactory (Destroy opts) nm)
                     (UnstructuredToObjMetaOrDie obj) err) tc))
      else
        (c, record_skipped (UnstructuredToObjMetaOrDie obj)
             (CreateSkippedEvent (CreateEventFactory (Destroy opts) nm) obj reason) tc))"
    by (simp add: Prune_obj_blocked [OF assms] record_skipped_def record_failed_def
        record_abandoned_def split: prod.splits option.splits)
  have main: "Prune p (obj # objs) (pre @ f # rest) tc nm opts c =
     (if filter_Name f = PreventRemoveFilterName then
        (case removeInventoryAnnotation p obj c of
           ((obj', None), c') \<Rightarrow>
             Prune p objs (pre @ f # rest)
               (record_skipped (UnstructuredToObjMetaOrDie obj)
                  (CreateSkippedEvent (CreateEventFactory (Destroy opts) nm) obj' reason)
                  (record_abandoned (UnstructuredToObjMetaOrDie obj) tc))
               nm opts c'
         | ((obj', Some err), c') \<Rightarrow>
             Prune p objs (pre @ f # rest)
               (record_failed (UnstructuredToObjMetaOrDie obj)
                  (CreateFailedEvent (CreateEventFactory (Destroy opts) nm)
                     (UnstructuredToObjMetaOrDie obj) err) tc)
               nm opts c')
      else
        Prune p objs (pre @ f # rest)
          (record_skipped (UnstructuredToObjMetaOrDie obj)
             (CreateSkippedEvent (CreateEventFactory (Destroy opts) nm) obj reason) tc)
          nm opts c)"
    unfolding Prune_Cons step by (simp split: prod.splits option.splits)
  have upd: "(case owner_annotation obj of
        None \<Rightarrow> removeInventoryAnnotation p obj c = ((obj, None), c)
      | Some v \<Rightarrow>
          (case namespacedClient p (UnstructuredToObjMetaOrDie obj) of
             Inl err \<Rightarrow>
               removeInventoryAnnotation p obj c = ((without_owner_annotation obj, Some err), c)
           | Inr nc \<Rightarrow>
               removeInventoryAnnotation p obj c =
                 ((without_owner_annotation obj,
                   (case fst (rc_Update nc c (GetNamespace obj) (without_owner_annotation obj)) of
                      Inl err \<Rightarrow> Some err | Inr updated \<Rightarrow> None)),
                  snd (rc_Update nc c (GetNamespace obj) (without_owner_annotation obj)))))"
    by (auto simp: removeInventoryAnnotation_absent removeInventoryAnnotation_update
        split: option.splits sum.splits prod.splits)
  from main removeInventoryAnnotation_strips [of p obj c] upd show ?thesis by blast
qed

theorem Prune_blocked_object_witness:
  "Prune (FakePruner []) [owned_pod ''Pod'' ''keep''] test_filters NewTaskContext ''prune-0''
      prune_opts [owned_pod ''Pod'' ''keep'']
   = (None, [without_owner_annotation (owned_pod ''Pod'' ''keep'')],
      record_skipped (UnstructuredToObjMetaOrDie (owned_pod ''Pod'' ''keep''))
        (CreateSkippedEvent (PruneEventFactory ''prune-0'')
           (without_owner_annotation (owned_pod ''Pod'' ''keep'')) ''prevent removal'')
        (record_abandoned (UnstructuredToObjMetaOrDie (owned_pod ''Pod'' ''keep'')) NewTaskContext))
 \<and> Prune (FakePruner []) [owned_pod ''Unreachable'' ''keep''] test_filters NewTaskContext ''prune-0''
      prune_opts [owned_pod ''Unreachable'' ''keep'']
   = (None, [owned_pod ''Unreachable'' ''keep''],
      record_failed (UnstructuredToObjMetaOrDie (owned_pod ''Unreachable'' ''keep''))
        (CreateFailedEvent (PruneEventFactory ''prune-0'')
           (UnstructuredToObjMetaOrDie (owned_pod ''Unreachable'' ''keep''))
           (Errorf ''discovery failed'')) NewTaskContext)
 \<and> Prune (FakePruner []) [owned_pod ''Pod'' ''stale''] test_filters NewTaskContext ''prune-0''
      prune_opts [owned_pod ''Pod'' ''stale'']
   = (None, [owned_pod ''Pod'' ''stale''],
      record_skipped (UnstructuredToObjMetaOrDie (owned_pod ''Pod'' ''stale''))
        (CreateSkippedEvent (PruneEventFactory ''prune-0'') (owned_pod ''Pod'' ''stale'')
           ''uid differs'') NewTaskContext)"
proof -
  have nd: "\<not> ClientOrServerDryRun (DryRunStrategy prune_opts)"
    by (simp add: ClientOrServerDryRun_def prune_opts_def)
  have a: "Prune (FakePruner []) [owned_pod ''Pod'' ''keep''] test_filters NewTaskContext ''prune-0''
      prune_opts [owned_pod ''Pod'' ''keep'']
   = (None, [without_owner_annotation (owned_pod ''Pod'' ''keep'')],
      record_skipped (UnstructuredToObjMetaOrDie (owned_pod ''Pod'' ''keep''))
        (CreateSkippedEvent (PruneEventFactory ''prune-0'')
           (without_owner_annotation (owned_pod ''Pod'' ''keep'')) ''prevent removal'')
        (record_abandoned (UnstructuredToObjMetaOrDie (owned_pod ''Pod'' ''keep'')) NewTaskContext))"
    using Prune_blocked_object [where p = "FakePruner []" and obj = "owned_pod ''Pod'' ''keep''"
        and objs = "[]" and c = "[owned_pod ''Pod'' ''keep'']" and tc = NewTaskContext
        and pre = "[testFilter ''CurrentUIDFilter'' ''stale'' ''uid differs'' None,
                    testFilter ''InventoryPolicyFilter'' ''broken'' [] (Some (Errorf ''policy check failed''))]"
        and f = "testFilter PreventRemoveFilterName ''keep'' ''prevent removal'' None"
        and rest = "[]" and reason = "''prevent removal''" and opts = prune_opts
        and nm = "''prune-0''", OF _ _ nd]
    by (simp add: prune_eval)
  have b: "Prune (FakePruner []) [owned_pod ''Unreachable'' ''keep''] test_filters NewTaskContext ''prune-0''
      prune_opts [owned_pod ''Unreachable'' ''keep'']
   = (None, [owned_pod ''Unreachable'' ''keep''],
      record_failed (UnstructuredToObjMetaOrDie (owned_pod ''Unreachable'' ''keep''))
        (CreateFailedEvent (PruneEventFactory ''prune-0'')
           (UnstructuredToObjMetaOrDie (owned_pod ''Unreachable'' ''keep''))
           (Errorf ''discovery failed'')) NewTaskContext)"
    using Prune_blocked_object [where p = "FakePruner []" and obj = "owned_pod ''Unreachable'' ''keep''"
        and objs = "[]" and c = "[owned_pod ''Unreachable'' ''keep'']" and tc = NewTaskContext
        and pre = "[testFilter ''CurrentUIDFilter'' ''stale'' ''uid differs'' None,
                    testFilter ''InventoryPolicyFilter'' ''broken'' [] (Some (Errorf ''policy check failed''))]"
        and f = "testFilter PreventRemoveFilterName ''keep'' ''prevent removal'' None"
        and rest = "[]" and reason = "''prevent removal''" and opts = prune_opts
        and nm = "''prune-0''", OF _ _ nd]
    by (simp add: prune_eval)
  have c: "Prune (FakePruner []) [owned_pod ''Pod'' ''stale''] test_filters NewTaskContext ''prune-0''
      prune_opts [owned_pod ''Pod'' ''stale'']
   = (None, [owned_pod ''Pod'' ''stale''],
      record_skipped (UnstructuredToObjMetaOrDie (owned_pod ''Pod'' ''stale''))
        (CreateSkippedEvent (PruneEventFactory ''prune-0'') (owned_pod ''Pod'' ''stale'')
           ''uid differs'') NewTaskContext)"
    using Prune_blocked_object [where p = "FakePruner []" and obj = "owned_pod ''Pod'' ''stale''"
        and objs = "[]" and c = "[owned_pod ''Pod'' ''stale'']" and tc = NewTaskContext
        and pre = "[]"
        and f = "testFilter ''CurrentUIDFilter'' ''stale'' ''uid differs'' None"
        and rest = "[testFilter ''InventoryPolicyFilter'' ''broken'' [] (Some (Errorf ''policy check failed'')),
                    testFilter PreventRemoveFilterName ''keep'' ''prevent removal'' None]"
        and reason = "''uid differs''" and opts = prune_opts
        and nm = "''prune-0''", OF _ _ nd]
    by (simp add: prune_eval)
  from a b c show ?thesis by simp
qed

text \<open>
  Claim C10. \<open>Prune\<close> returns nil for every input. It sends exactly one event per object, and
  the ids it adds to the failed deletes are exactly the ids of the Failed events it sends,
  in order. A filter error, an error of the annotation removal, and an error of the
  delete each record the id as a failed delete with a Failed event carrying the error,
  and \<open>Prune\<close> goes on with the remaining objects.
\<close>

theorem Prune_returns_nil_and_records_failures:
  "fst (Prune p objs fs tc nm opts c) = None
 \<and> (\<exists>es. eventChannel (snd (snd (Prune p objs fs tc nm opts c))) = eventChannel tc @ es
        \<and> length es = length objs
        \<and> failedDeletes (snd (snd (Prune p objs fs tc nm opts c)))
            = failedDeletes tc @ failedIds es)
 \<and> (list_all (\<lambda>g. filter_passes g c tc obj) pre
      \<and> filter_Filter f c tc obj = (b, reason, Some err)
    \<longrightarrow> Prune p (obj # objs) (pre @ f # rest) tc nm opts c =
          Prune p objs (pre @ f # rest)
            (record_failed (UnstructuredToObjMetaOrDie obj)
               (CreateFailedEvent (CreateEventFactory (Destroy opts) nm)
                  (UnstructuredToObjMetaOrDie obj) err) tc)
            nm opts c)
 \<and> (list_all (\<lambda>g. filter_passes g c tc obj) pre
      \<and> filter_Filter f c tc obj = (True, reason, None)
      \<and> filter_Name f = PreventRemoveFilterName
      \<and> \<not> ClientOrServerDryRun (DryRunStrategy opts)
      \<and> removeInventoryAnnotation p obj c = ((obj', Some err), c')
    \<longrightarrow> Prune p (obj # objs) (pre @ f # rest) tc nm opts c =
          Prune p objs (pre @ f # rest)
            (record_failed (UnstructuredToObjMetaOrDie obj)
               (CreateFailedEvent (CreateEventFactory (Destroy opts) nm)
                  (UnstructuredToObjMetaOrDie obj) err) tc)
            nm opts c')
 \<and> (list_all (\<lambda>g. filter_passes g c tc obj) fs
      \<and> \<not> ClientOrServerDryRun (DryRunStrategy opts)
      \<and> deleteObject p (UnstructuredToObjMetaOrDie obj)
            \<lparr>del_PropagationPolicy = Some (PropagationPolicy opts)\<rparr> c = (Some err, c')
    \<longrightarrow> Prune p (obj # objs) fs tc nm opts c =
          Prune p objs fs
            (record_failed (UnstructuredToObjMetaOrDie obj)
               (CreateFailedEvent (CreateEventFactory (Destroy opts) nm)
                  (UnstructuredToObjMetaOrDie obj) err) tc)
            nm opts c')"
proof -
  let ?ef = "CreateEventFactory (Destroy opts) nm"
  have nil: "fst (Prune p objs fs tc nm opts c) = None"
    by (rule Prune_returns_nil)
  have ctx: "\<exists>es. eventChannel (snd (snd (Prune p objs fs tc nm opts c))) = eventChannel tc @ es
        \<and> length es = length objs
        \<and> failedDeletes (snd (snd (Prune p objs fs tc nm opts c)))
            = failedDeletes tc @ failedIds es"
    using Prune_loop_ctx [of p ?ef opts fs objs "(c, tc)"]
    by (simp add: Prune_def Let_def)
  have ferr: "Prune p (obj # objs) (pre @ f # rest) tc nm opts c =
          Prune p objs (pre @ f # rest)
            (record_failed (UnstructuredToObjMetaOrDie obj)
               (CreateFailedEvent ?ef (UnstructuredToObjMetaOrDie obj) err) tc)
            nm opts c"
    if "list_all (\<lambda>g. filter_passes g c tc obj) pre"
      and "filter_Filter f c tc obj = (b, reason, Some err)"
    unfolding Prune_Cons Prune_obj_filter_error [OF that]
    by (simp add: record_failed_def)
  have aerr: "Prune p (obj # objs) (pre @ f # rest) tc nm opts c =
          Prune p objs (pre @ f # rest)
            (record_failed (UnstructuredToObjMetaOrDie obj)
               (CreateFailedEvent ?ef (UnstructuredToObjMetaOrDie obj) err) tc)
            nm opts c'"
    if "list_all (\<lambda>g. filter_passes g c tc obj) pre"
      and "filter_Filter f c tc obj = (True, reason, None)"
      and "filter_Name f = PreventRemoveFilterName"
      and "\<not> ClientOrServerDryRun (DryRunStrategy opts)"
      and "removeInventoryAnnotation p obj c = ((obj', Some err), c')"
    unfolding Prune_Cons Prune_obj_blocked [OF that(1,2,4)]
    using that(3,5) by (simp add: record_failed_def)
  have derr: "Prune p (obj # objs) fs tc nm opts c =
          Prune p objs fs
            (record_failed (UnstructuredToObjMetaOrDie obj)
               (CreateFailedEvent ?ef (UnstructuredToObjMetaOrDie obj) err) tc)
            nm opts c'"
    if "list_all (\<lambda>g. filter_passes g c tc obj) fs"
      and "\<not> ClientOrServerDryRun (DryRunStrategy opts)"
      and "deleteObject p (UnstructuredToObjMetaOrDie obj)
            \<lparr>del_PropagationPolicy = Some (PropagationPolicy opts)\<rparr> c = (Some err, c')"
    unfolding Prune_Cons Prune_obj_delete [OF that(1,2)]
    using that(3) by (simp add: record_failed_def)
  from nil ctx ferr aerr derr show ?thesis by blast
qed

theorem Prune_returns_nil_and_records_failures_witness:
  "fst (Prune (FakePruner []) [owned_pod ''Pod'' ''broken'', pod ''a''] test_filters NewTaskContext
      ''prune-0'' prune_opts [owned_pod ''Pod'' ''broken'', pod ''a'']) = None
 \<and> Prune (FakePruner []) [owned_pod ''Pod'' ''broken'', pod ''a''] test_filters NewTaskContext
      ''prune-0'' prune_opts [owned_pod ''Pod'' ''broken'', pod ''a'']
   = (None, [owned_pod ''Pod'' ''broken''],
      NewTaskContext
        \<lparr>failedDeletes := [UnstructuredToObjMetaOrDie (owned_pod ''Pod'' ''broken'')],
         eventChannel :=
           [CreateFailedEvent (PruneEventFactory ''prune-0'')
              (UnstructuredToObjMetaOrDie (owned_pod ''Pod'' ''broken''))
              (Errorf ''policy check failed''),
            CreateSuccessEvent (PruneEventFactory ''prune-0'') (pod ''a'')]\<rparr>)
 \<and> Prune (FakePruner []) [owned_pod ''Unreachable'' ''keep'', pod ''a''] test_filters NewTaskContext
      ''prune-0'' prune_opts [owned_pod ''Unreachable'' ''keep'', pod ''a'']
   = (None, [owned_pod ''Unreachable'' ''keep''],
      NewTaskContext
        \<lparr>failedDeletes := [UnstructuredToObjMetaOrDie (owned_pod ''Unreachable'' ''keep'')],
         eventChannel :=
           [CreateFailedEvent (PruneEventFactory ''prune-0'')
              (UnstructuredToObjMetaOrDie (owned_pod ''Unreachable'' ''keep''))
              (Errorf ''discovery failed''),
            CreateSuccessEvent (PruneEventFactory ''prune-0'') (pod ''a'')]\<rparr>)
 \<and> Prune (FakePruner []) [pod ''gone'', pod ''a''] test_filters NewTaskContext
      ''prune-0'' prune_opts [pod ''a'']
   = (None, [],
      NewTaskContext
        \<lparr>failedDeletes := [UnstructuredToObjMetaOrDie (pod ''gone'')],
         eventChannel :=
           [CreateFailedEvent (PruneEventFactory ''prune-0'')
              (UnstructuredToObjMetaOrDie (pod ''gone'')) NotFoundError,
            CreateSuccessEvent (PruneEventFactory ''prune-0'') (pod ''a'')]\<rparr>)"
proof -
  have n: "fst (Prune (FakePruner []) [owned_pod ''Pod'' ''broken'', pod ''a''] test_filters
      NewTaskContext ''prune-0'' prune_opts [owned_pod ''Pod'' ''broken'', pod ''a'']) = None"
    using Prune_returns_nil_and_records_failures [where p = "FakePruner []"
        and objs = "[owned_pod ''Pod'' ''broken'', pod ''a'']" and fs = test_filters
        and tc = NewTaskContext and nm = "''prune-0''" and opts = prune_opts
        and c = "[owned_pod ''Pod'' ''broken'', pod ''a'']"]
    by blast
  have a: "Prune (FakePruner []) [owned_pod ''Pod'' ''broken'', pod ''a''] test_filters NewTaskContext
      ''prune-0'' prune_opts [owned_pod ''Pod'' ''broken'', pod ''a'']
   = (None, [owned_pod ''Pod'' ''broken''],
      NewTaskContext
        \<lparr>failedDeletes := [UnstructuredToObjMetaOrDie (owned_pod ''Pod'' ''broken'')],
         eventChannel :=
           [CreateFailedEvent (PruneEventFactory ''prune-0'')
              (UnstructuredToObjMetaOrDie (owned_pod ''Pod'' ''broken''))
              (Errorf ''policy check failed''),
            CreateSuccessEvent (PruneEventFactory ''prune-0'') (pod ''a'')]\<rparr>)"
    using Prune_returns_nil_and_records_failures [where p = "FakePruner []"
        and obj = "owned_pod ''Pod'' ''broken''" and objs = "[pod ''a'']"
        and tc = NewTaskContext and nm = "''prune-0''" and opts = prune_opts
        and c = "[owned_pod ''Pod'' ''broken'', pod ''a'']"
        and pre = "[testFilter ''CurrentUIDFilter'' ''stale'' ''uid differs'' None]"
        and f = "testFilter ''InventoryPolicyFilter'' ''broken'' [] (Some (Errorf ''policy check failed''))"
        and rest = "[testFilter PreventRemoveFilterName ''keep'' ''prevent removal'' None]"
        and b = False and reason = "[]" and err = "Errorf ''policy check failed''"]
    by (simp add: prune_eval pod_def)
  have r: "Prune (FakePruner []) [owned_pod ''Unreachable'' ''keep'', pod ''a''] test_filters NewTaskContext
      ''prune-0'' prune_opts [owned_pod ''Unreachable'' ''keep'', pod ''a'']
   = (None, [owned_pod ''Unreachable'' ''keep''],
      NewTaskContext
        \<lparr>failedDeletes := [UnstructuredToObjMetaOrDie (owned_pod ''Unreachable'' ''keep'')],
         eventChannel :=
           [CreateFailedEvent (PruneEventFactory ''prune-0'')
              (UnstructuredToObjMetaOrDie (owned_pod ''Unreachable'' ''keep''))
              (Errorf ''discovery failed''),
            CreateSuccessEvent (PruneEventFactory ''prune-0'') (pod ''a'')]\<rparr>)"
    using Prune_returns_nil_and_records_failures [where p = "FakePruner []"
        and obj = "owned_pod ''Unreachable'' ''keep''" and objs = "[pod ''a'']"
        and tc = NewTaskContext and nm = "''prune-0''" and opts = prune_opts
        and c = "[owned_pod ''Unreachable'' ''keep'', pod ''a'']"
        and pre = "[testFilter ''CurrentUIDFilter'' ''stale'' ''uid differs'' None,
                    testFilter ''InventoryPolicyFilter'' ''broken'' [] (Some (Errorf ''policy check failed''))]"
        and f = "testFilter PreventRemoveFilterName ''keep'' ''prevent removal'' None"
        and rest = "[]" and reason = "''prevent removal''" and err = "Errorf ''discovery failed''"
        and obj' = "without_owner_annotation (owned_pod ''Unreachable'' ''keep'')"
        and c' = "[owned_pod ''Unreachable'' ''keep'', pod ''a'']"]
    by (simp add: prune_eval pod_def)
  have d: "Prune (FakePruner []) [pod ''gone'', pod ''a''] test_filters NewTaskContext
      ''prune-0'' prune_opts [pod ''a'']
   = (None, [],
      NewTaskContext
        \<lparr>failedDeletes := [UnstructuredToObjMetaOrDie (pod ''gone'')],
         eventChannel :=
           [CreateFailedEvent (PruneEventFactory ''prune-0'')
              (UnstructuredToObjMetaOrDie (pod ''gone'')) NotFoundError,
            CreateSuccessEvent (PruneEventFactory ''prune-0'') (pod ''a'')]\<rparr>)"
    using Prune_returns_nil_and_records_failures [where p = "FakePruner []"
        and obj = "pod ''gone''" and objs = "[pod ''a'']" and fs = test_filters
        and tc = NewTaskContext and nm = "''prune-0''" and opts = prune_opts
        and c = "[pod ''a'']" and err = NotFoundError and c' = "[pod ''a'']"]
    by (simp add: prune_eval pod_def)
  from n a r d show ?thesis by simp
qed

section \<open>The ConfigMap inventory and the unstructured client\<close>

text \<open>
  Modelled from the spec: the \<open>String\<close> methods of the three status enumerations (the
  actuation package is not among the sources), with the value names of section 3.
\<close>

fun ActuationStrategy_String :: "ActuationStrategy \<Rightarrow> string" where
  "ActuationStrategy_String ActuationStrategyApply = ''apply''"
| "ActuationStrategy_String ActuationStrategyDelete = ''delete''"

fun ActuationStatus_String :: "ActuationStatus \<Rightarrow> string" where
  "ActuationStatus_String ActuationPending = ''pending''"
| "ActuationStatus_String ActuationSucceeded = ''succeeded''"
| "ActuationStatus_String ActuationSkipped = ''skipped''"
| "ActuationStatus_String ActuationFailed = ''failed''"

fun ReconcileStatus_String :: "ReconcileStatus \<Rightarrow> string" where
  "ReconcileStatus_String ReconcilePending = ''pending''"
| "ReconcileStatus_String ReconcileSucceeded = ''succeeded''"
| "ReconcileStatus_String ReconcileSkipped = ''skipped''"
| "ReconcileStatus_String ReconcileFailed = ''failed''"
| "ReconcileStatus_String ReconcileTimeout = ''timeout''"

definition json_string :: "string \<Rightarrow> string" where
  \<comment> \<open>A JSON string literal of a text that needs no escaping.\<close>
  "json_string t = [CHR 0x22] @ t @ [CHR 0x22]"

definition stringFrom :: "ObjectStatus \<Rightarrow> string" where
  \<comment> \<open>\<open>json.Marshal\<close> of the three-key map (keys in sorted order); it never fails and is
      never the empty object, so the two guarded returns of the source are not taken.\<close>
  "stringFrom st =
     ''{'' @ json_string ''actuation'' @ '':'' @ json_string (ActuationStatus_String (Actuation st))
       @ '','' @ json_string ''reconcile'' @ '':'' @ json_string (ReconcileStatus_String (Reconcile st))
       @ '','' @ json_string ''strategy'' @ '':'' @ json_string (ActuationStrategy_String (Strategy st))
       @ ''}''"

text \<open>
  \<open>buildObjMap\<close>. \<open>ObjMetadata.String\<close> belongs to the object package and is a parameter,
  \<open>String_of\<close>. The status map is keyed by the object reference of each status; a later
  status for the same reference replaces an earlier one.
\<close>

definition buildObjMap ::
  "(ObjMetadata \<Rightarrow> string) \<Rightarrow> ObjMetadataSet \<Rightarrow> ObjectStatus list \<Rightarrow> strmap" where
  "buildObjMap String_of objMetas objStatus =
     (let objStatusMap = foldl (\<lambda>m st. m(ObjectReference st \<mapsto> st)) Map.empty objStatus
      in foldl (\<lambda>objMap objMetadata.
                  (case objStatusMap objMetadata of
                     Some st \<Rightarrow> map_put (String_of objMetadata) (stringFrom st) objMap
                   | None \<Rightarrow> map_put (String_of objMetadata) [] objMap))
               [] objMetas)"

text \<open>
  The loop of \<open>configMapToInventory\<close> over the keys of the data map;
  \<open>object.ParseObjMetadata\<close> is a parameter.
\<close>

fun parse_keys ::
  "(string \<Rightarrow> error + ObjMetadata) \<Rightarrow> string list \<Rightarrow> ObjMetadataSet \<Rightarrow> error + ObjMetadataSet" where
  "parse_keys ParseObjMetadata [] objs = Inr objs"
| "parse_keys ParseObjMetadata (objStr # rest) objs =
     (case ParseObjMetadata objStr of
        Inl err \<Rightarrow> Inl err
      | Inr obj \<Rightarrow> parse_keys ParseObjMetadata rest (objs @ [obj]))"

definition configMapToInventory ::
  "(string \<Rightarrow> error + ObjMetadata) \<Rightarrow> Unstructured option \<Rightarrow> error + UnstructuredInventory" where
  "configMapToInventory ParseObjMetadata configMap =
     (case configMap of
        None \<Rightarrow> Inl (Panic ''nil pointer dereference'')
      | Some cm \<Rightarrow>
          (case dataField cm of
             DataMalformed \<Rightarrow>
               Inl (Errorf ''error retrieving object metadata from inventory object'')
           | DataAbsent \<Rightarrow> Inr \<lparr>Objs = [], ObjStatuses = [], ClusterObj = configMap\<rparr>
           | DataStrings objMap \<Rightarrow>
               (case parse_keys ParseObjMetadata (map fst objMap) [] of
                  Inl err \<Rightarrow> Inl err
                | Inr objs \<Rightarrow> Inr \<lparr>Objs = objs, ObjStatuses = [], ClusterObj = configMap\<rparr>)))"

definition inventoryToConfigMap ::
  "(ObjMetadata \<Rightarrow> string) \<Rightarrow> UnstructuredInventory \<Rightarrow> error + Unstructured" where
  \<comment> \<open>\<open>SetNestedStringMap\<close> with the one-field path "data" has no failing branch.\<close>
  "inventoryToConfigMap String_of ui =
     (case ClusterObj ui of
        None \<Rightarrow> Inl (Panic ''nil pointer dereference'')
      | Some newConfigMap \<Rightarrow>
          (let objMap = buildObjMap String_of (Objects ui) (ObjectStatuses ui)
           in Inr (newConfigMap\<lparr>dataField := DataStrings objMap\<rparr>)))"

text \<open>
  \<open>UnstructuredClient\<close>. Only \<open>StatusPolicyNone\<close> is named in the sources at hand; the other
  policy stands for every value that is not \<open>StatusPolicyNone\<close>.
\<close>

datatype StatusPolicy = StatusPolicyNone | StatusPolicyAll

record 'c UnstructuredClient =
  client :: "'c ResourceInterface"
  statusPolicy :: StatusPolicy
  fromUnstructured :: "Unstructured option \<Rightarrow> error + UnstructuredInventory"
  toUnstructured :: "UnstructuredInventory \<Rightarrow> error + Unstructured"

text \<open>
  The \<open>Inventory\<close> interface value passed to \<open>Update\<close>: another implementation, or a pointer
  to an \<open>UnstructuredInventory\<close> that may be nil.
\<close>

datatype Inventory = OtherInventory FakeInventory | UnstructuredInv "UnstructuredInventory option"

definition NestedInt64_observedGeneration :: "Unstructured \<Rightarrow> error + int option" where
  \<comment> \<open>\<open>unstructured.NestedInt64(obj, "status", "observedGeneration")\<close>: value and found, or error.\<close>
  "NestedInt64_observedGeneration obj =
     (case statusField obj of
        StatusAbsent \<Rightarrow> Inr None
      | StatusNotMap \<Rightarrow> Inl (Errorf ''.status accessor error: not a map'')
      | StatusMap ObsAbsent \<Rightarrow> Inr None
      | StatusMap ObsNotInt \<Rightarrow> Inl (Errorf ''.status.observedGeneration accessor error: not an int64'')
      | StatusMap (ObsInt n) \<Rightarrow> Inr (Some n))"

definition SetNestedField_observedGeneration :: "Unstructured \<Rightarrow> int \<Rightarrow> error + Unstructured" where
  \<comment> \<open>\<open>unstructured.SetNestedField(obj, v, "status", "observedGeneration")\<close>.\<close>
  "SetNestedField_observedGeneration obj v =
     (case statusField obj of
        StatusNotMap \<Rightarrow> Inl (Errorf ''value cannot be set because .status is not a map'')
      | _ \<Rightarrow> Inr (obj\<lparr>statusField := StatusMap (ObsInt v)\<rparr>))"

text \<open>
  \<open>UnstructuredClient.Update\<close>: the returned error, the inventory as the call leaves it
  (the source assigns \<open>ui.ClusterObj\<close> through the pointer) and the store.
\<close>

definition UnstructuredClient_Update ::
  "'c UnstructuredClient \<Rightarrow> Inventory \<Rightarrow> UpdateOptions \<Rightarrow> 'c \<Rightarrow> error option \<times> Inventory \<times> 'c" where
  "UnstructuredClient_Update cic invArg opts c =
     (case invArg of
        OtherInventory other \<Rightarrow> (Some (Errorf ''expected ConfigMapInventory''), invArg, c)
      | UnstructuredInv None \<Rightarrow> (Some (Errorf ''inventory is nil''), invArg, c)
      | UnstructuredInv (Some ui) \<Rightarrow>
          (case toUnstructured cic ui of
             Inl err \<Rightarrow> (Some err, invArg, c)
           | Inr uObj \<Rightarrow>
               (case rc_Update (client cic) c (GetNamespace uObj) uObj of
                  (Inl err, c1) \<Rightarrow>
                    if IsNotFound err then
                      (case rc_Create (client cic) c1 (GetNamespace uObj) uObj of
                         (Inl err, c2) \<Rightarrow> (Some err, invArg, c2)
                       | (Inr newObj, c2) \<Rightarrow>
                           (None, UnstructuredInv (Some (ui\<lparr>ClusterObj := Some newObj\<rparr>)), c2))
                    else (Some err, invArg, c1)
                | (Inr newObj, c1) \<Rightarrow>
                    (let ui = ui\<lparr>ClusterObj := Some newObj\<rparr> in
                     if statusPolicy cic = StatusPolicyNone \<or> \<not> UpdateStatus opts
                     then (None, UnstructuredInv (Some ui), c1)
                     else
                       (let uObj = uObj\<lparr>GetResourceVersion := GetResourceVersion newObj\<rparr> in
                        case NestedInt64_observedGeneration newObj of
                          Inl err \<Rightarrow> (Some err, UnstructuredInv (Some ui), c1)
                        | Inr found \<Rightarrow>
                            (case (case found of
                                     None \<Rightarrow> Inr uObj
                                   | Some v \<Rightarrow>
                                       SetNestedField_observedGeneration uObj (GetGeneration newObj)) of
                               Inl err \<Rightarrow> (Some err, UnstructuredInv (Some ui), c1)
                             | Inr uObj \<Rightarrow>
                                 (case rc_UpdateStatus (client cic) c1 (GetNamespace uObj) uObj of
                                    (Inl err, c2) \<Rightarrow> (Some err, UnstructuredInv (Some ui), c2)
                                  | (Inr newObj, c2) \<Rightarrow>
                                      (None,
                                       UnstructuredInv (Some (ui\<lparr>ClusterObj := Some newObj\<rparr>)),
                                       c2))))))))"

text \<open>
  The reactors of \<open>TestCreateOrUpdate\<close>: they count the update and create calls and hand
  each call on to the store behind them. A status update is an update call of the fake
  client as well.
\<close>

record 'c Counting =
  updateCalls :: nat
  createCalls :: nat
  behind :: 'c

definition counting :: "'c ResourceInterface \<Rightarrow> 'c Counting ResourceInterface" where
  "counting rc =
     \<lparr>rc_Get = (\<lambda>s ns nm. rc_Get rc (behind s) ns nm),
      rc_List = (\<lambda>s. rc_List rc (behind s)),
      rc_Create = (\<lambda>s ns obj. case rc_Create rc (behind s) ns obj of
                    (r, c') \<Rightarrow> (r, s\<lparr>createCalls := Suc (createCalls s), behind := c'\<rparr>)),
      rc_Update = (\<lambda>s ns obj. case rc_Update rc (behind s) ns obj of
                    (r, c') \<Rightarrow> (r, s\<lparr>updateCalls := Suc (updateCalls s), behind := c'\<rparr>)),
      rc_UpdateStatus = (\<lambda>s ns obj. case rc_UpdateStatus rc (behind s) ns obj of
                    (r, c') \<Rightarrow> (r, s\<lparr>updateCalls := Suc (updateCalls s), behind := c'\<rparr>)),
      rc_Delete = (\<lambda>s ns nm opts. case rc_Delete rc (behind s) ns nm opts of
                    (r, c') \<Rightarrow> (r, s\<lparr>behind := c'\<rparr>))\<rparr>"

definition encoded :: "(ObjMetadata \<Rightarrow> string) \<Rightarrow> Unstructured \<Rightarrow> UnstructuredInventory \<Rightarrow> Unstructured" where
  \<comment> \<open>The ConfigMap with the inventory written into its data map.\<close>
  "encoded String_of cm ui =
     cm\<lparr>dataField := DataStrings (buildObjMap String_of (Objects ui) (ObjectStatuses ui))\<rparr>"

text \<open>Closed instances: a string form and a parser for the three test ids, and a client.\<close>

definition test_String :: "ObjMetadata \<Rightarrow> string" where
  "test_String i =
     Namespace i @ ''_'' @ Name i @ ''_'' @ Group (GroupKind i) @ ''_'' @ Kind (GroupKind i)"

definition test_Parse :: "string \<Rightarrow> error + ObjMetadata" where
  "test_Parse s =
     (if s = test_String pod_a then Inr pod_a
      else if s = test_String pod_b then Inr pod_b
      else if s = test_String pod_c then Inr pod_c
      else Inl (Errorf ''unable to parse stored object metadata''))"

definition inventory_cm :: Unstructured where
  "inventory_cm = testObject ''ConfigMap'' ''inventory'' None"

definition test_status :: ObjectStatus where
  "test_status = \<lparr>ObjectReference = pod_a, Strategy = ActuationStrategyApply,
     Actuation = ActuationSucceeded, Reconcile = ReconcileSucceeded\<rparr>"

definition test_inventory :: UnstructuredInventory where
  "test_inventory = \<lparr>Objs = [pod_a, pod_b], ObjStatuses = [test_status],
     ClusterObj = Some inventory_cm\<rparr>"

definition test_client :: "FakeCluster Counting UnstructuredClient" where
  "test_client = \<lparr>client = counting FakeResource, statusPolicy = StatusPolicyNone,
     fromUnstructured = configMapToInventory test_Parse,
     toUnstructured = inventoryToConfigMap test_String\<rparr>"

definition GoneResource :: "unit ResourceInterface" where
  \<comment> \<open>A store on which every call is not-found, create included.\<close>
  "GoneResource =
     \<lparr>rc_Get = (\<lambda>c ns nm. Inl NotFoundError),
      rc_List = (\<lambda>c. Inl NotFoundError),
      rc_Create = (\<lambda>c ns obj. (Inl NotFoundError, c)),
      rc_Update = (\<lambda>c ns obj. (Inl NotFoundError, c)),
      rc_UpdateStatus = (\<lambda>c ns obj. (Inl NotFoundError, c)),
      rc_Delete = (\<lambda>c ns nm opts. (Some NotFoundError, c))\<rparr>"

definition gone_client :: "unit Counting UnstructuredClient" where
  "gone_client = \<lparr>client = counting GoneResource, statusPolicy = StatusPolicyAll,
     fromUnstructured = configMapToInventory test_Parse,
     toUnstructured = inventoryToConfigMap test_String\<rparr>"

subsection \<open>Facts about the ConfigMap inventory and the client\<close>






lemma fake_Update_absent:
  "find (fake_has ns (GetName obj)) store = None \<Longrightarrow> fake_Update store ns obj = (Inl NotFoundError, store)"
  by (simp add: fake_Update_def)

lemma find_append_new:
  "find P xs = None \<Longrightarrow> P x \<Longrightarrow> find P (xs @ [x]) = Some x"
  by (induction xs) (auto split: if_splits)

lemma map_replace_append:
  "find P xs = None \<Longrightarrow> P x \<Longrightarrow> map (\<lambda>y. if P y then z else y) (xs @ [x]) = xs @ [z]"
  by (induction xs) (auto split: if_splits)





text \<open>
  Claim C4. With the counting reactors in front of a store that does not hold the
  inventory object, \<open>Update\<close> gets not-found from the remote update, creates the object
  once and attaches the returned object as \<open>ClusterObj\<close>: one update call, one create call.
  A second \<open>Update\<close> of the same record with another object set succeeds with one more
  update call and no create call. For any store: when the remote update is not-found,
  \<open>Update\<close> makes exactly one create call; its error is returned, its object is attached.
\<close>

theorem Update_create_or_update:
  assumes "ClusterObj ui = Some cm"
    and "find (fake_has (GetNamespace cm) (GetName cm)) store = None"
    and "client cic = counting FakeResource"
    and "toUnstructured cic = inventoryToConfigMap String_of"
    and "statusPolicy cic = StatusPolicyNone \<or> \<not> UpdateStatus opts2"
  shows "UnstructuredClient_Update cic (UnstructuredInv (Some ui)) opts
           \<lparr>updateCalls = u, createCalls = k, behind = store\<rparr>
         = (None, UnstructuredInv (Some (ui\<lparr>ClusterObj := Some (encoded String_of cm ui)\<rparr>)),
            \<lparr>updateCalls = u + 1, createCalls = k + 1,
             behind = store @ [encoded String_of cm ui]\<rparr>)
       \<and> UnstructuredClient_Update cic
           (UnstructuredInv (Some (SetObjects updateObjs
              (ui\<lparr>ClusterObj := Some (encoded String_of cm ui)\<rparr>))))
           opts2
           \<lparr>updateCalls = u + 1, createCalls = k + 1,
            behind = store @ [encoded String_of cm ui]\<rparr>
         = (None,
            UnstructuredInv (Some (ui\<lparr>Objs := updateObjs,
               ClusterObj := Some (encoded String_of cm (SetObjects updateObjs ui))\<rparr>)),
            \<lparr>updateCalls = u + 2, createCalls = k + 1,
             behind = store @ [encoded String_of cm (SetObjects updateObjs ui)]\<rparr>)
       \<and> (toUnstructured cic' ui' = Inr uObj \<and> client cic' = counting rc
            \<and> rc_Update rc c (GetNamespace uObj) uObj = (Inl err, cu) \<and> IsNotFound err
          \<longrightarrow> UnstructuredClient_Update cic' (UnstructuredInv (Some ui')) opts'
                \<lparr>updateCalls = u', createCalls = k', behind = c\<rparr>
              = (case rc_Create rc cu (GetNamespace uObj) uObj of
                   (Inl e, c2) \<Rightarrow>
                     (Some e, UnstructuredInv (Some ui'),
                      \<lparr>updateCalls = Suc u', createCalls = Suc k', behind = c2\<rparr>)
                 | (Inr newObj, c2) \<Rightarrow>
                     (None, UnstructuredInv (Some (ui'\<lparr>ClusterObj := Some newObj\<rparr>)),
                      \<lparr>updateCalls = Suc u', createCalls = Suc k', behind = c2\<rparr>)))"
proof -
  let ?cm1 = "encoded String_of cm ui"
  let ?ui1 = "ui\<lparr>ClusterObj := Some ?cm1\<rparr>"
  let ?cm2 = "encoded String_of cm (ui\<lparr>Objs := updateObjs\<rparr>)"
  let ?P = "fake_has (GetNamespace cm) (GetName cm)"
  have nm: "GetNamespace (encoded String_of cm x) = GetNamespace cm"
    "GetName (encoded String_of cm x) = GetName cm" for x
    by (simp_all add: encoded_def)
  have enc1: "toUnstructured cic ui = Inr ?cm1"
    using assms(1,4) by (simp add: inventoryToConfigMap_def encoded_def)
  have enc2: "toUnstructured cic (ui\<lparr>ClusterObj := Some ?cm1, Objs := updateObjs\<rparr>) = Inr ?cm2"
    using assms(4)
    by (simp add: inventoryToConfigMap_def encoded_def Objects_def ObjectStatuses_def)
  have has1: "?P ?cm1"
    by (simp add: fake_has_def nm)
  have first: "UnstructuredClient_Update cic (UnstructuredInv (Some ui)) opts
           \<lparr>updateCalls = u, createCalls = k, behind = store\<rparr>
         = (None, UnstructuredInv (Some ?ui1),
            \<lparr>updateCalls = u + 1, createCalls = k + 1, behind = store @ [?cm1]\<rparr>)"
    using assms(2)
    by (simp add: UnstructuredClient_Update_def enc1 assms(3) counting_def FakeResource_def
        fake_Update_def nm IsNotFound_def)
  have found: "find ?P (store @ [?cm1]) = Some ?cm1"
    using find_append_new [OF assms(2) has1] .
  have repl: "map (\<lambda>x. if ?P x then ?cm2 else x) (store @ [?cm1]) = store @ [?cm2]"
    using map_replace_append [OF assms(2) has1] .
  have upd: "fake_Update (store @ [?cm1]) (GetNamespace cm) ?cm2 = (Inr ?cm2, store @ [?cm2])"
    unfolding fake_Update_def nm found option.case repl ..
  have second': "UnstructuredClient_Update cic
           (UnstructuredInv (Some (ui\<lparr>ClusterObj := Some ?cm1, Objs := updateObjs\<rparr>))) opts2
           \<lparr>updateCalls = u + 1, createCalls = k + 1, behind = store @ [?cm1]\<rparr>
         = (None, UnstructuredInv (Some (ui\<lparr>Objs := updateObjs, ClusterObj := Some ?cm2\<rparr>)),
            \<lparr>updateCalls = u + 2, createCalls = k + 1, behind = store @ [?cm2]\<rparr>)"
    using assms(5)
    by (simp add: UnstructuredClient_Update_def enc2 assms(3) counting_def FakeResource_def
        nm upd Let_def)
  have second: "UnstructuredClient_Update cic
           (UnstructuredInv (Some (SetObjects updateObjs ?ui1))) opts2
           \<lparr>updateCalls = u + 1, createCalls = k + 1, behind = store @ [?cm1]\<rparr>
         = (None,
            UnstructuredInv (Some (ui\<lparr>Objs := updateObjs,
               ClusterObj := Some (encoded String_of cm (SetObjects updateObjs ui))\<rparr>)),
            \<lparr>updateCalls = u + 2, createCalls = k + 1,
             behind = store @ [encoded String_of cm (SetObjects updateObjs ui)]\<rparr>)"
    using second' by (simp add: SetObjects_def)
  have third: "UnstructuredClient_Update cic' (UnstructuredInv (Some ui')) opts'
                \<lparr>updateCalls = u', createCalls = k', behind = c\<rparr>
              = (case rc_Create rc cu (GetNamespace uObj) uObj of
                   (Inl e, c2) \<Rightarrow>
                     (Some e, UnstructuredInv (Some ui'),
                      \<lparr>updateCalls = Suc u', createCalls = Suc k', behind = c2\<rparr>)
                 | (Inr newObj, c2) \<Rightarrow>
                     (None, UnstructuredInv (Some (ui'\<lparr>ClusterObj := Some newObj\<rparr>)),
                      \<lparr>updateCalls = Suc u', createCalls = Suc k', behind = c2\<rparr>))"
    if "toUnstructured cic' ui' = Inr uObj" and "client cic' = counting rc"
      and "rc_Update rc c (GetNamespace uObj) uObj = (Inl err, cu)" and "IsNotFound err"
    using that
    by (simp add: UnstructuredClient_Update_def counting_def split: prod.splits sum.splits)
  from first second third show ?thesis by blast
qed

theorem Update_create_or_update_witness:
  "UnstructuredClient_Update test_client (UnstructuredInv (Some test_inventory))
      \<lparr>UpdateStatus = False\<rparr> \<lparr>updateCalls = 0, createCalls = 0, behind = []\<rparr>
   = (None,
      UnstructuredInv (Some (test_inventory
        \<lparr>ClusterObj := Some (encoded test_String inventory_cm test_inventory)\<rparr>)),
      \<lparr>updateCalls = 1, createCalls = 1,
       behind = [encoded test_String inventory_cm test_inventory]\<rparr>)
 \<and> UnstructuredClient_Update test_client
      (UnstructuredInv (Some (SetObjects [pod_a, pod_c] (test_inventory
        \<lparr>ClusterObj := Some (encoded test_String inventory_cm test_inventory)\<rparr>))))
      \<lparr>UpdateStatus = False\<rparr>
      \<lparr>updateCalls = 1, createCalls = 1,
       behind = [encoded test_String inventory_cm test_inventory]\<rparr>
   = (None,
      UnstructuredInv (Some (test_inventory
        \<lparr>Objs := [pod_a, pod_c],
         ClusterObj := Some (encoded test_String inventory_cm
                               (SetObjects [pod_a, pod_c] test_inventory))\<rparr>)),
      \<lparr>updateCalls = 2, createCalls = 1,
       behind = [encoded test_String inventory_cm (SetObjects [pod_a, pod_c] test_inventory)]\<rparr>)
 \<and> UnstructuredClient_Update gone_client (UnstructuredInv (Some test_inventory))
      \<lparr>UpdateStatus = True\<rparr> \<lparr>updateCalls = 0, createCalls = 0, behind = ()\<rparr>
   = (Some NotFoundError, UnstructuredInv (Some test_inventory),
      \<lparr>updateCalls = 1, createCalls = 1, behind = ()\<rparr>)"
proof -
  have co: "ClusterObj test_inventory = Some inventory_cm"
    by (simp add: test_inventory_def)
  have ab: "find (fake_has (GetNamespace inventory_cm) (GetName inventory_cm)) [] = None"
    by simp
  have cl: "client test_client = counting FakeResource"
    by (simp add: test_client_def)
  have tu: "toUnstructured test_client = inventoryToConfigMap test_String"
    by (simp add: test_client_def)
  have sp: "statusPolicy test_client = StatusPolicyNone \<or> \<not> UpdateStatus \<lparr>UpdateStatus = False\<rparr>"
    by simp
  note both = Update_create_or_update [OF co ab cl tu sp, where u = 0 and k = 0
        and opts = "\<lparr>UpdateStatus = False\<rparr>" and updateObjs = "[pod_a, pod_c]"]
  have gone: "UnstructuredClient_Update gone_client (UnstructuredInv (Some test_inventory))
      \<lparr>UpdateStatus = True\<rparr> \<lparr>updateCalls = 0, createCalls = 0, behind = ()\<rparr>
   = (Some NotFoundError, UnstructuredInv (Some test_inventory),
      \<lparr>updateCalls = 1, createCalls = 1, behind = ()\<rparr>)"
    using Update_create_or_update [OF co ab cl tu sp, where cic' = gone_client
        and ui' = test_inventory and uObj = "encoded test_String inventory_cm test_inventory"
        and rc = GoneResource and c = "()" and err = NotFoundError and cu = "()"
        and opts' = "\<lparr>UpdateStatus = True\<rparr>" and u' = 0 and k' = 0,
        THEN conjunct2, THEN conjunct2]
    by (simp add: gone_client_def GoneResource_def inventoryToConfigMap_def encoded_def
        test_inventory_def IsNotFound_def)
  from both [THEN conjunct1] both [THEN conjunct2, THEN conjunct1] gone
  show ?thesis by simp
qed

section \<open>The list printer\<close>

text \<open>
  Modelled from the spec: the event types of the event package (section 6), as far as
  \<open>Print\<close> reads them. Each operation enumeration has its zero value, which no case of
  the switches of \<open>Print\<close> names.
\<close>

datatype ApplyEventOperation =
  ApplyUnspecified | ServersideApplied | Created | Unchanged | Configured

datatype PruneEventOperation = PruneUnspecified | Pruned | PruneSkipped

datatype DeleteEventOperation = DeleteUnspecified | Deleted | DeleteSkipped

datatype WaitEventOperation =
  WaitUnspecified | Reconciled | ReconcileSkipped_op | ReconcileTimeout_op

record ActionGroup =
  ag_Name :: string
  ag_Action :: string
  ag_Identifiers :: ObjMetadataSet

record ApplyEvent =
  ae_Identifier :: ObjMetadata
  ae_Operation :: ApplyEventOperation
  ae_Error :: "error option"

record PruneEvent =
  pe_Identifier :: ObjMetadata
  pe_Operation :: PruneEventOperation
  pe_Error :: "error option"

record DeleteEvent =
  de_Identifier :: ObjMetadata
  de_Operation :: DeleteEventOperation
  de_Error :: "error option"

record WaitEvent =
  we_Identifier :: ObjMetadata
  we_Operation :: WaitEventOperation

record StatusEvent =
  se_Identifier :: ObjMetadata
  se_Status :: string

record ErrorEvent =
  ee_Err :: "error option"

record ActionGroupEvent =
  age_GroupName :: string
  age_Action :: string
  age_Finished :: bool

text \<open>
  \<open>event.Event\<close>: the type tag with the event of that type. \<open>OtherType\<close> stands for a tag
  that the switch of \<open>Print\<close> does not name.
\<close>

datatype Event =
    InitType "ActionGroup list"
  | ErrorType ErrorEvent
  | ApplyType ApplyEvent
  | StatusType StatusEvent
  | PruneType PruneEvent
  | DeleteType DeleteEvent
  | WaitType WaitEvent
  | ActionGroupType ActionGroupEvent
  | OtherType

text \<open>The statistics of the list printer. The counters are Go \<open>int\<close>s that only count up
  from zero, one step per event; they are natural numbers here.\<close>

record ApplyStats =
  as_ServersideApplied :: nat
  as_Created :: nat
  as_Unchanged :: nat
  as_Configured :: nat
  as_Failed :: nat

fun ApplyStats_inc :: "ApplyEventOperation \<Rightarrow> ApplyStats \<Rightarrow> ApplyStats" where
  "ApplyStats_inc ApplyUnspecified a = a"
| "ApplyStats_inc ServersideApplied a = a\<lparr>as_ServersideApplied := as_ServersideApplied a + 1\<rparr>"
| "ApplyStats_inc Created a = a\<lparr>as_Created := as_Created a + 1\<rparr>"
| "ApplyStats_inc Unchanged a = a\<lparr>as_Unchanged := as_Unchanged a + 1\<rparr>"
| "ApplyStats_inc Configured a = a\<lparr>as_Configured := as_Configured a + 1\<rparr>"

definition ApplyStats_incFailed :: "ApplyStats \<Rightarrow> ApplyStats" where
  "ApplyStats_incFailed a = a\<lparr>as_Failed := as_Failed a + 1\<rparr>"

record PruneStats =
  ps_Pruned :: nat
  ps_Skipped :: nat
  ps_Failed :: nat

record DeleteStats =
  ds_Deleted :: nat
  ds_Skipped :: nat
  ds_Failed :: nat

record WaitStats =
  ws_Reconciled :: nat
  ws_Timeout :: nat
  ws_Skipped :: nat

text \<open>
  \<open>Formatter\<close>: what each method returns. A formatter writes to its output and reads the
  statistics it is handed; it does not change them.
\<close>

record Formatter =
  FormatApplyEvent :: "ApplyEvent \<Rightarrow> error option"
  FormatStatusEvent :: "StatusEvent \<Rightarrow> error option"
  FormatPruneEvent :: "PruneEvent \<Rightarrow> error option"
  FormatDeleteEvent :: "DeleteEvent \<Rightarrow> error option"
  FormatWaitEvent :: "WaitEvent \<Rightarrow> error option"
  FormatErrorEvent :: "ErrorEvent \<Rightarrow> error option"
  FormatActionGroupEvent ::
    "ActionGroupEvent \<Rightarrow> ActionGroup list \<Rightarrow> ApplyStats \<Rightarrow> PruneStats \<Rightarrow> DeleteStats \<Rightarrow>
     WaitStats \<Rightarrow> (ObjMetadata \<rightharpoonup> StatusEvent) \<Rightarrow> error option"

record BaseListPrinter =
  FormatterFactory :: "DryRunStrategy \<Rightarrow> Formatter"

text \<open>The local variables of \<open>Print\<close>.\<close>

record PrintVars =
  actionGroups :: "ActionGroup list"
  applyStats :: ApplyStats
  pruneStats :: PruneStats
  deleteStats :: DeleteStats
  waitStats :: WaitStats
  latestStatus :: "ObjMetadata \<rightharpoonup> StatusEvent"

definition Print_init :: PrintVars where
  "Print_init =
     \<lparr>actionGroups = [],
      applyStats = \<lparr>as_ServersideApplied = 0, as_Created = 0, as_Unchanged = 0,
                     as_Configured = 0, as_Failed = 0\<rparr>,
      pruneStats = \<lparr>ps_Pruned = 0, ps_Skipped = 0, ps_Failed = 0\<rparr>,
      deleteStats = \<lparr>ds_Deleted = 0, ds_Skipped = 0, ds_Failed = 0\<rparr>,
      waitStats = \<lparr>ws_Reconciled = 0, ws_Timeout = 0, ws_Skipped = 0\<rparr>,
      latestStatus = Map.empty\<rparr>"

text \<open>
  One pass of the loop body of \<open>Print\<close> for one event: \<open>Inl\<close> is a \<open>return\<close> inside the loop
  (with the returned error, which may be nil), \<open>Inr\<close> the variables after the pass.
\<close>

definition Print_event :: "Formatter \<Rightarrow> bool \<Rightarrow> Event \<Rightarrow> PrintVars \<Rightarrow> error option + PrintVars" where
  "Print_event formatter printStatus e v =
     (case e of
        InitType ags \<Rightarrow> Inr (v\<lparr>actionGroups := ags\<rparr>)
      | ErrorType ee \<Rightarrow> Inl (ee_Err ee)
      | ApplyType ae \<Rightarrow>
          (let a = ApplyStats_inc (ae_Operation ae) (applyStats v);
               a = (if ae_Error ae \<noteq> None then ApplyStats_incFailed a else a);
               v = v\<lparr>applyStats := a\<rparr>
           in case FormatApplyEvent formatter ae of Some err \<Rightarrow> Inl (Some err) | None \<Rightarrow> Inr v)
      | StatusType se \<Rightarrow>
          (let v = v\<lparr>latestStatus := (latestStatus v)(se_Identifier se \<mapsto> se)\<rparr>
           in if printStatus
              then (case FormatStatusEvent formatter se of
                      Some err \<Rightarrow> Inl (Some err) | None \<Rightarrow> Inr v)
              else Inr v)
      | PruneType pe \<Rightarrow>
          (let p = pruneStats v;
               p = (case pe_Operation pe of
                      Pruned \<Rightarrow> p\<lparr>ps_Pruned := ps_Pruned p + 1\<rparr>
                    | PruneSkipped \<Rightarrow> p\<lparr>ps_Skipped := ps_Skipped p + 1\<rparr>
                    | PruneUnspecified \<Rightarrow> p);
               p = (if pe_Error pe \<noteq> None then p\<lparr>ps_Failed := ps_Failed p + 1\<rparr> else p);
               v = v\<lparr>pruneStats := p\<rparr>
           in case FormatPruneEvent formatter pe of Some err \<Rightarrow> Inl (Some err) | None \<Rightarrow> Inr v)
      | DeleteType de \<Rightarrow>
          (let d = deleteStats v;
               d = (case de_Operation de of
                      Deleted \<Rightarrow> d\<lparr>ds_Deleted := ds_Deleted d + 1\<rparr>
                    | DeleteSkipped \<Rightarrow> d\<lparr>ds_Skipped := ds_Skipped d + 1\<rparr>
                    | DeleteUnspecified \<Rightarrow> d);
               d = (if de_Error de \<noteq> None then d\<lparr>ds_Failed := ds_Failed d + 1\<rparr> else d);
               v = v\<lparr>deleteStats := d\<rparr>
           in case FormatDeleteEvent formatter de of Some err \<Rightarrow> Inl (Some err) | None \<Rightarrow> Inr v)
      | WaitType we \<Rightarrow>
          (let w = waitStats v;
               w = (case we_Operation we of
                      Reconciled \<Rightarrow> w\<lparr>ws_Reconciled := ws_Reconciled w + 1\<rparr>
                    | ReconcileSkipped_op \<Rightarrow> w\<lparr>ws_Skipped := ws_Skipped w + 1\<rparr>
                    | ReconcileTimeout_op \<Rightarrow> w\<lparr>ws_Timeout := ws_Timeout w + 1\<rparr>
                    | WaitUnspecified \<Rightarrow> w);
               v = v\<lparr>waitStats := w\<rparr>
           in case FormatWaitEvent formatter we of Some err \<Rightarrow> Inl (Some err) | None \<Rightarrow> Inr v)
      | ActionGroupType age \<Rightarrow>
          (case FormatActionGroupEvent formatter age (actionGroups v) (applyStats v)
                  (pruneStats v) (deleteStats v) (waitStats v) (latestStatus v) of
             Some err \<Rightarrow> Inl (Some err)
           | None \<Rightarrow> Inr v)
      | OtherType \<Rightarrow> Inr v)"

fun Print_loop :: "Formatter \<Rightarrow> bool \<Rightarrow> Event list \<Rightarrow> PrintVars \<Rightarrow> error option + PrintVars" where
  "Print_loop formatter printStatus [] v = Inr v"
| "Print_loop formatter printStatus (e # ch) v =
     (case Print_event formatter printStatus e v of
        Inl r \<Rightarrow> Inl r
      | Inr v' \<Rightarrow> Print_loop formatter printStatus ch v')"

text \<open>\<open>fmt.Sprintf("%d", n)\<close> for a count.\<close>

fun Sprintf_d :: "nat \<Rightarrow> string" where
  "Sprintf_d n =
     (if n < 10 then [''0123456789'' ! n]
      else Sprintf_d (n div 10) @ [''0123456789'' ! (n mod 10)])"

declare Sprintf_d.simps [simp del]

text \<open>
  \<open>BaseListPrinter.Print\<close> on the events the channel delivers until it is closed; the
  error value is \<open>fmt.Errorf\<close> of the formatted message.
\<close>

definition Print :: "BaseListPrinter \<Rightarrow> Event list \<Rightarrow> DryRunStrategy \<Rightarrow> bool \<Rightarrow> error option" where
  "Print b ch previewStrategy printStatus =
     (let formatter = FormatterFactory b previewStrategy in
      case Print_loop formatter printStatus ch Print_init of
        Inl r \<Rightarrow> r
      | Inr v \<Rightarrow>
          (let failedSum = as_Failed (applyStats v) + ps_Failed (pruneStats v)
                             + ds_Failed (deleteStats v)
           in if failedSum > 0 \<and> ws_Timeout (waitStats v) > 0
              then Some (Errorf (Sprintf_d failedSum @ '' resources failed, ''
                          @ Sprintf_d (ws_Timeout (waitStats v))
                          @ '' resources failed to reconcile before timeout''))
              else if failedSum > 0
              then Some (Errorf (Sprintf_d failedSum @ '' resources failed''))
              else if ws_Timeout (waitStats v) > 0
              then Some (Errorf (Sprintf_d (ws_Timeout (waitStats v))
                          @ '' resources failed to reconcile before timeout''))
              else None))"

definition quiet_formatter :: "Formatter \<Rightarrow> bool" where
  \<comment> \<open>No method of the formatter ever returns an error.\<close>
  "quiet_formatter f =
     ((\<forall>e. FormatApplyEvent f e = None) \<and> (\<forall>e. FormatStatusEvent f e = None)
      \<and> (\<forall>e. FormatPruneEvent f e = None) \<and> (\<forall>e. FormatDeleteEvent f e = None)
      \<and> (\<forall>e. FormatWaitEvent f e = None)
      \<and> (\<forall>e ags a p d w c. FormatActionGroupEvent f e ags a p d w c = None))"

definition is_ErrorType :: "Event \<Rightarrow> bool" where
  \<comment> \<open>The event is an Error event.\<close>
  "is_ErrorType e = (case e of ErrorType ee \<Rightarrow> True | _ \<Rightarrow> False)"

definition event_failed :: "Event \<Rightarrow> bool" where
  \<comment> \<open>An apply, prune or delete event that carries an error.\<close>
  "event_failed e =
     (case e of
        ApplyType ae \<Rightarrow> ae_Error ae \<noteq> None
      | PruneType pe \<Rightarrow> pe_Error pe \<noteq> None
      | DeleteType de \<Rightarrow> de_Error de \<noteq> None
      | _ \<Rightarrow> False)"

definition event_timeout :: "Event \<Rightarrow> bool" where
  \<comment> \<open>A wait event whose operation is the reconcile timeout.\<close>
  "event_timeout e =
     (case e of WaitType we \<Rightarrow> we_Operation we = ReconcileTimeout_op | _ \<Rightarrow> False)"

definition aggregate_error :: "nat \<Rightarrow> nat \<Rightarrow> error" where
  \<comment> \<open>The one form of the aggregate error that section 7 of the specification gives.\<close>
  "aggregate_error n m =
     Errorf (Sprintf_d n @ '' resources failed, '' @ Sprintf_d m
             @ '' resources failed to reconcile before timeout'')"

text \<open>Closed instances: a formatter that never fails, and three events.\<close>

definition quiet :: Formatter where
  "quiet = \<lparr>FormatApplyEvent = (\<lambda>e. None), FormatStatusEvent = (\<lambda>e. None),
     FormatPruneEvent = (\<lambda>e. None), FormatDeleteEvent = (\<lambda>e. None),
     FormatWaitEvent = (\<lambda>e. None), FormatErrorEvent = (\<lambda>e. None),
     FormatActionGroupEvent = (\<lambda>e ags a p d w c. None)\<rparr>"

definition test_printer :: BaseListPrinter where
  "test_printer = \<lparr>FormatterFactory = (\<lambda>previewStrategy. quiet)\<rparr>"

definition failed_apply :: Event where
  "failed_apply = ApplyType \<lparr>ae_Identifier = pod_a, ae_Operation = ApplyUnspecified,
     ae_Error = Some (Errorf ''connection refused'')\<rparr>"

definition failed_delete :: Event where
  "failed_delete = DeleteType \<lparr>de_Identifier = pod_b, de_Operation = DeleteUnspecified,
     de_Error = Some (Errorf ''forbidden'')\<rparr>"

definition timed_out :: Event where
  "timed_out = WaitType \<lparr>we_Identifier = pod_c, we_Operation = ReconcileTimeout_op\<rparr>"

definition failedSum_of :: "PrintVars \<Rightarrow> nat" where
  \<comment> \<open>The \<open>failedSum\<close> of \<open>Print\<close>, of the variables of the loop.\<close>
  "failedSum_of v = as_Failed (applyStats v) + ps_Failed (pruneStats v) + ds_Failed (deleteStats v)"

subsection \<open>Facts about the list printer\<close>

lemma ApplyStats_inc_Failed: "as_Failed (ApplyStats_inc op' a) = as_Failed a"
  by (cases op') simp_all

lemma Print_event_counts:
  assumes "quiet_formatter f" and "\<not> is_ErrorType e"
  shows "\<exists>v'. Print_event f printStatus e v = Inr v'
     \<and> failedSum_of v' = failedSum_of v + (if event_failed e then 1 else 0)
     \<and> ws_Timeout (waitStats v') = ws_Timeout (waitStats v) + (if event_timeout e then 1 else 0)"
proof (cases e)
  case (ApplyType ae)
  with assms show ?thesis
    by (simp add: Print_event_def quiet_formatter_def event_failed_def event_timeout_def
        failedSum_of_def ApplyStats_incFailed_def ApplyStats_inc_Failed Let_def)
next
  case (PruneType pe)
  with assms show ?thesis
    by (cases "pe_Operation pe")
      (simp_all add: Print_event_def quiet_formatter_def event_failed_def event_timeout_def
        failedSum_of_def Let_def)
next
  case (DeleteType de)
  with assms show ?thesis
    by (cases "de_Operation de")
      (simp_all add: Print_event_def quiet_formatter_def event_failed_def event_timeout_def
        failedSum_of_def Let_def)
next
  case (WaitType we)
  with assms show ?thesis
    by (cases "we_Operation we")
      (simp_all add: Print_event_def quiet_formatter_def event_failed_def event_timeout_def
        failedSum_of_def Let_def)
qed (use assms in \<open>simp_all add: Print_event_def quiet_formatter_def event_failed_def
        event_timeout_def failedSum_of_def is_ErrorType_def Let_def\<close>)

lemma Print_loop_counts:
  assumes "quiet_formatter f"
  shows "list_all (\<lambda>e. \<not> is_ErrorType e) ch \<Longrightarrow>
     \<exists>v'. Print_loop f printStatus ch v = Inr v'
       \<and> failedSum_of v' = failedSum_of v + length (filter event_failed ch)
       \<and> ws_Timeout (waitStats v') = ws_Timeout (waitStats v) + length (filter event_timeout ch)"
proof (induction ch arbitrary: v)
  case Nil
  show ?case by simp
next
  case (Cons e ch)
  then have ne: "\<not> is_ErrorType e" and rest: "list_all (\<lambda>e. \<not> is_ErrorType e) ch" by simp_all
  from Print_event_counts [OF assms ne, of printStatus v] obtain v1 where
    v1: "Print_event f printStatus e v = Inr v1"
      "failedSum_of v1 = failedSum_of v + (if event_failed e then 1 else 0)"
      "ws_Timeout (waitStats v1) = ws_Timeout (waitStats v) + (if event_timeout e then 1 else 0)"
    by blast
  from Cons.IH [OF rest, of v1] obtain v' where
    v': "Print_loop f printStatus ch v1 = Inr v'"
      "failedSum_of v' = failedSum_of v1 + length (filter event_failed ch)"
      "ws_Timeout (waitStats v') = ws_Timeout (waitStats v1) + length (filter event_timeout ch)"
    by blast
  from v1 v' show ?case by simp
qed

lemma Sprintf_d_digit: "n < 10 \<Longrightarrow> Sprintf_d n = [''0123456789'' ! n]"
  by (simp add: Sprintf_d.simps)

lemma Sprintf_d_0: "Sprintf_d 0 = ''0''"
  and Sprintf_d_1: "Sprintf_d (Suc 0) = ''1''"
  and Sprintf_d_2: "Sprintf_d (Suc (Suc 0)) = ''2''"
  by (simp_all add: Sprintf_d_digit)

text \<open>
  Claim C9, as stated, fails: with one failed apply and no timeout the error is
  "1 resources failed", not the two-part form.
\<close>

theorem Print_one_form_counterexample:
  "Print test_printer [failed_apply] DryRunNone False = Some (Errorf ''1 resources failed'')
 \<and> Some (Errorf ''1 resources failed'') \<noteq> Some (aggregate_error 1 0)"
  by (simp add: Print_def test_printer_def quiet_def failed_apply_def Print_event_def Print_init_def
      ApplyStats_incFailed_def aggregate_error_def Sprintf_d_1 Sprintf_d_0 Let_def)

text \<open>
  Claim C9, amended. When the channel carries no Error event and the formatter reports no
  error, \<open>Print\<close> returns, with failedSum the number of apply, prune and delete events that
  carry an error and with the number of reconcile timeouts: the error
  "N resources failed, M resources failed to reconcile before timeout" when both are
  nonzero; "N resources failed" when only failedSum is; "M resources failed to reconcile
  before timeout" when only the timeouts are; and nil when both are zero.
\<close>

theorem Print_returns:
  assumes "quiet_formatter (FormatterFactory b previewStrategy)"
    and "list_all (\<lambda>e. \<not> is_ErrorType e) ch"
  shows "Print b ch previewStrategy printStatus =
     (let failedSum = length (filter event_failed ch);
          timeouts = length (filter event_timeout ch)
      in if failedSum > 0 \<and> timeouts > 0 then Some (aggregate_error failedSum timeouts)
         else if failedSum > 0 then Some (Errorf (Sprintf_d failedSum @ '' resources failed''))
         else if timeouts > 0
         then Some (Errorf (Sprintf_d timeouts @ '' resources failed to reconcile before timeout''))
         else None)"
proof -
  from Print_loop_counts [OF assms, of printStatus Print_init] obtain v where
    v: "Print_loop (FormatterFactory b previewStrategy) printStatus ch Print_init = Inr v"
      "failedSum_of v = failedSum_of Print_init + length (filter event_failed ch)"
      "ws_Timeout (waitStats v) = ws_Timeout (waitStats Print_init) + length (filter event_timeout ch)"
    by blast
  have z: "failedSum_of Print_init = 0" "ws_Timeout (waitStats Print_init) = 0"
    by (simp_all add: failedSum_of_def Print_init_def)
  from v z have f: "as_Failed (applyStats v) + ps_Failed (pruneStats v) + ds_Failed (deleteStats v)
      = length (filter event_failed ch)"
    and t: "ws_Timeout (waitStats v) = length (filter event_timeout ch)"
    by (simp_all add: failedSum_of_def)
  show ?thesis
    unfolding Print_def Let_def v(1) sum.case f t aggregate_error_def ..
qed

theorem Print_returns_witness:
  "Print test_printer [failed_apply, timed_out, failed_delete] DryRunNone False
     = Some (Errorf ''2 resources failed, 1 resources failed to reconcile before timeout'')
 \<and> Print test_printer [failed_apply, failed_delete] DryRunNone False
     = Some (Errorf ''2 resources failed'')
 \<and> Print test_printer [timed_out] DryRunNone False
     = Some (Errorf ''1 resources failed to reconcile before timeout'')
 \<and> Print test_printer [] DryRunNone False = None"
proof -
  have q: "quiet_formatter (FormatterFactory test_printer DryRunNone)"
    by (simp add: quiet_formatter_def test_printer_def quiet_def)
  have e: "list_all (\<lambda>e. \<not> is_ErrorType e) ch"
    if "set ch \<subseteq> {failed_apply, timed_out, failed_delete}" for ch
    using that
    by (auto simp: list_all_iff is_ErrorType_def failed_apply_def timed_out_def failed_delete_def)
  have c: "event_failed failed_apply" "event_failed failed_delete" "\<not> event_failed timed_out"
    "event_timeout timed_out" "\<not> event_timeout failed_apply" "\<not> event_timeout failed_delete"
    by (simp_all add: event_failed_def event_timeout_def failed_apply_def timed_out_def
        failed_delete_def)
  have 1: "Print test_printer [failed_apply, timed_out, failed_delete] DryRunNone False
     = Some (Errorf ''2 resources failed, 1 resources failed to reconcile before timeout'')"
    using Print_returns [OF q e, of "[failed_apply, timed_out, failed_delete]" False]
    by (simp add: c aggregate_error_def Sprintf_d_1 Sprintf_d_2)
  have 2: "Print test_printer [failed_apply, failed_delete] DryRunNone False
     = Some (Errorf ''2 resources failed'')"
    using Print_returns [OF q e, of "[failed_apply, failed_delete]" False]
    by (simp add: c Sprintf_d_2)
  have 3: "Print test_printer [timed_out] DryRunNone False
     = Some (Errorf ''1 resources failed to reconcile before timeout'')"
    using Print_returns [OF q e, of "[timed_out]" False]
    by (simp add: c Sprintf_d_1)
  have 4: "Print test_printer [] DryRunNone False = None"
    using Print_returns [OF q e, of "[]" False] by simp
  from 1 2 3 4 show ?thesis by simp
qed

end
